theory Spec2Isabelle
  imports Complex_Main
begin

section \<open>Numbers, errors and count dictionaries\<close>

text \<open>
  The notebooks compute with Python integers and with floating-point numbers. Integers
  are embedded as \<^typ>\<open>int\<close>; the result of a true division \<open>/\<close> and of
  \<open>np.exp\<close> is embedded as the \<^typ>\<open>real\<close> number it denotes, so rounding,
  overflow and underflow of IEEE doubles are not part of the model. Every exception the
  embedded code can raise is a value of \<open>py_error\<close>, and a function that can raise
  returns \<open>py_error + 'a\<close> with \<open>Inl\<close> for the exception.
\<close>

datatype py_error =
  ZeroDivisionError | OverflowError | IndexError | AttributeError | TypeError | SdkError string

text \<open>
  A counts dictionary maps a bitstring to the number of shots that gave it.
  \<open>dict_get counts k d\<close> is Python's \<open>counts.get(k, d)\<close>.
\<close>

type_synonym counts = "string \<rightharpoonup> int"

definition dict_get :: "counts \<Rightarrow> string \<Rightarrow> int \<Rightarrow> int" where
  "dict_get counts k d = (case counts k of None \<Rightarrow> d | Some v \<Rightarrow> v)"

section \<open>Exercise 1: the solution cell\<close>

text \<open>
  \<^verbatim>\<open>
  def calc_prob1(counts):
      return counts.get('1', 0) / (counts.get('0', 0) + counts.get('1', 0))
  \<close>
  Python's \<open>/\<close> on two integers raises \<open>ZeroDivisionError\<close> when the divisor is 0.
  Otherwise it gives the float nearest to the quotient, and raises \<open>OverflowError\<close>
  when that is beyond the largest float, which is when the magnitude of the quotient is
  at least \<open>2^1024 - 2^970\<close>, halfway between the largest float and \<open>2^1024\<close>.
  The function only reads its argument (three calls of \<open>get\<close>), so it is a function
  of the dictionary's value.
\<close>

definition float_overflow_bound :: real where
  "float_overflow_bound = 2 ^ 1024 - 2 ^ 970"

definition calc_prob1 :: "counts \<Rightarrow> py_error + real" where
  "calc_prob1 counts =
     (let numerator = dict_get counts ''1'' 0;
          denominator = dict_get counts ''0'' 0 + dict_get counts ''1'' 0
      in if denominator = 0 then Inl ZeroDivisionError
         else if float_overflow_bound \<le> \<bar>real_of_int numerator / real_of_int denominator\<bar>
         then Inl OverflowError
         else Inr (real_of_int numerator / real_of_int denominator))"

text \<open>
  \<^verbatim>\<open>
  def inversion_recovery_function(tau, t1):
      return np.exp(-tau/t1)
  \<close>
  For \<open>t1 = 0\<close> the quotient is no real number: on Python numbers the division raises
  \<open>ZeroDivisionError\<close> (on numpy operands it gives an infinity or a NaN with a
  warning). The model has the exception in that branch.
\<close>

definition inversion_recovery_function :: "real \<Rightarrow> real \<Rightarrow> py_error + real" where
  "inversion_recovery_function tau t1 =
     (if t1 = 0 then Inl ZeroDivisionError else Inr (exp (- tau / t1)))"

section \<open>Exercise 1: the model function in float64 arithmetic\<close>

text \<open>
  The values the notebook computes with are float64 numbers: a finite one is the real
  number it stands for, and there are the two infinities. (Signed zeros and NaN are left
  out: they do not arise from the operations below on finite operands with a divisor
  other than 0.) An operation of float64 arithmetic returns the float nearest to the
  exact result, a tie going to the float with the even significand, and an infinity when
  the magnitude of the exact result is at least \<open>2^1024 - 2^970\<close>.

  The floats around \<open>x\<close> are the multiples of \<open>float64_ulp x\<close>, which is
  \<open>2^(e - 52)\<close> for \<open>2^e \<le> |x| < 2^(e + 1)\<close> and \<open>2^(-1074)\<close> below \<open>2^(-1022)\<close>,
  where the floats are subnormal.
\<close>

datatype float64 = Finite real | PlusInf | MinusInf

definition round_half_even :: "real \<Rightarrow> int" where
  "round_half_even r =
     (let f = \<lfloor>r\<rfloor>; d = r - of_int f
      in if d < 1 / 2 then f else if 1 / 2 < d then f + 1 else if even f then f else f + 1)"

definition float64_exponent :: "real \<Rightarrow> int" where
  "float64_exponent x = max \<lfloor>log 2 \<bar>x\<bar>\<rfloor> (- 1022)"

definition float64_ulp :: "real \<Rightarrow> real" where
  "float64_ulp x = 2 powr (of_int (float64_exponent x) - 52)"

definition float64_nearest_magnitude :: "real \<Rightarrow> real" where
  "float64_nearest_magnitude m = of_int (round_half_even (m / float64_ulp m)) * float64_ulp m"

definition float64_nearest :: "real \<Rightarrow> real" where
  "float64_nearest x = sgn x * float64_nearest_magnitude \<bar>x\<bar>"

definition float64_round :: "real \<Rightarrow> float64" where
  "float64_round x =
     (if float_overflow_bound \<le> x then PlusInf
      else if x \<le> - float_overflow_bound then MinusInf
      else Finite (float64_nearest x))"

text \<open>
  \<open>np.exp\<close> on a float64: the float nearest to the exponential of a finite argument,
  0 at minus infinity and infinity at infinity.
\<close>

fun np_exp :: "float64 \<Rightarrow> float64" where
  "np_exp (Finite x) = float64_round (exp x)"
| "np_exp PlusInf = PlusInf"
| "np_exp MinusInf = Finite 0"

text \<open>
  \<open>inversion_recovery_function\<close> on two float64 numbers, with the rounding of its two
  operations written out: \<open>-tau\<close> is exact, the quotient \<open>-tau/t1\<close> is rounded (to minus
  infinity when it is out of range), and \<open>np.exp\<close> is applied to the rounded quotient.
  At \<open>t1 = 0\<close> it is as above.
\<close>

definition inversion_recovery_function_float64 :: "real \<Rightarrow> real \<Rightarrow> py_error + float64" where
  "inversion_recovery_function_float64 tau t1 =
     (if t1 = 0 then Inl ZeroDivisionError else Inr (np_exp (float64_round (- tau / t1))))"

section \<open>Exercise 1: the store, the SDK and the extraction loop\<close>

text \<open>
  \<open>extract_prob1_data\<close> allocates an array and writes to it while it reads the job's
  result object, so the objects live in an explicit store: a list of objects, an address
  being an index into it, and an allocation appending to it. The SDK's \<open>Result\<close> object
  is opaque (type \<open>'r\<close>): the notebook only calls \<open>get_counts\<close> on it.
\<close>

type_synonym addr = nat

datatype 'r pyobj = Result 'r | Counts counts | NdArray "real list"

type_synonym 'r heap = "'r pyobj list"

definition alloc :: "'r heap \<Rightarrow> 'r pyobj \<Rightarrow> 'r heap \<times> addr" where
  "alloc h ob = (h @ [ob], length h)"

text \<open>
  \<open>prob_1s[exp] = prob_1\<close>: an index outside the array raises \<open>IndexError\<close>;
  an address that holds no array is a \<open>TypeError\<close>.
\<close>

definition array_set :: "'r heap \<Rightarrow> addr \<Rightarrow> nat \<Rightarrow> real \<Rightarrow> py_error + 'r heap" where
  "array_set h a i v =
     (if a < length h then
        (case h ! a of
           NdArray xs \<Rightarrow>
             if i < length xs then Inr (h[a := NdArray (xs[i := v])]) else Inl IndexError
         | _ \<Rightarrow> Inl TypeError)
      else Inl TypeError)"

text \<open>The contents of the array at an address (empty when no array is there).\<close>

definition array_at :: "'r heap \<Rightarrow> addr \<Rightarrow> real list" where
  "array_at h a = (case h ! a of NdArray xs \<Rightarrow> xs | _ \<Rightarrow> [])"

text \<open>
  The two calls into Qiskit, \<open>result.get_counts(index)\<close> and
  \<open>marginal_counts(counts, indices=[...])\<close>, are parameters of the model. They are
  functions of the values they are given and return a new dictionary or raise, which is
  how the notebook calls them (\<open>marginal_counts\<close> with its default
  \<open>inplace=False\<close>).
\<close>

record 'r sdk =
  get_counts :: "'r \<Rightarrow> nat \<Rightarrow> py_error + counts"
  marginal_counts :: "counts \<Rightarrow> int list \<Rightarrow> py_error + counts"

text \<open>The only attribute of a qubit of the chip that the notebook reads is its index.\<close>

record qubit =
  index :: int

text \<open>
  The globals the functions of the cell read: \<open>n_exps\<close> (50 in the notebook) and
  \<open>ir_result\<close>, the result object of the job, as an address of the store.
\<close>

record globals =
  n_exps :: nat
  ir_result :: addr

text \<open>
  \<^verbatim>\<open>
  def get_qubit_counts(qubit, result, index):
      return marginal_counts(result.get_counts(index), indices=[qubit.index])
  \<close>
  The dictionary that is returned is a new object of the store. (The intermediate
  dictionary of \<open>get_counts\<close> is unreachable after the call and is not stored.)
  The parameter \<open>index\<close> is \<open>idx\<close> here, \<open>index\<close> being the attribute of the
  qubit. A \<open>result\<close> that is no result object has no \<open>get_counts\<close>:
  \<open>AttributeError\<close>.
\<close>

definition get_qubit_counts ::
  "'r sdk \<Rightarrow> 'r heap \<Rightarrow> qubit \<Rightarrow> addr \<Rightarrow> nat \<Rightarrow> 'r heap \<times> (py_error + addr)" where
  "get_qubit_counts sdk h qubit result idx =
     (if result < length h then
        (case h ! result of
           Result r \<Rightarrow>
             (case get_counts sdk r idx of
                Inl e \<Rightarrow> (h, Inl e)
              | Inr full \<Rightarrow>
                  (case marginal_counts sdk full [index qubit] of
                     Inl e \<Rightarrow> (h, Inl e)
                   | Inr m \<Rightarrow> (case alloc h (Counts m) of (h1, a) \<Rightarrow> (h1, Inr a))))
         | _ \<Rightarrow> (h, Inl AttributeError))
      else (h, Inl AttributeError))"

text \<open>
  \<^verbatim>\<open>
  def extract_prob1_data(result, qubit):
      index = qubit.index
      prob_1s = np.zeros(n_exps)
      for exp in range(n_exps):
          counts = get_qubit_counts(qubit, ir_result, exp)
          prob_1 = calc_prob1(counts)
          prob_1s[exp] = prob_1
      return prob_1s
  \<close>
  The loop reads the global \<open>ir_result\<close>, not its parameter \<open>result\<close>, and the
  local \<open>index\<close> is never used. No statement of the body is inside a \<open>try\<close>: an
  exception of a call ends the function with that exception. The loop variable
  \<open>exp\<close> is \<open>e\<close> here, and the loop over \<open>range(n_exps)\<close> is the recursion of
  \<open>extract_loop\<close> over the list of the indices.
\<close>

fun extract_loop ::
  "'r sdk \<Rightarrow> globals \<Rightarrow> qubit \<Rightarrow> addr \<Rightarrow> nat list \<Rightarrow> 'r heap \<Rightarrow> 'r heap \<times> (py_error + unit)" where
  "extract_loop sdk g qubit prob_1s [] h = (h, Inr ())"
| "extract_loop sdk g qubit prob_1s (e # es) h =
     (case get_qubit_counts sdk h qubit (ir_result g) e of
        (h1, Inl err) \<Rightarrow> (h1, Inl err)
      | (h1, Inr counts) \<Rightarrow>
          (case h1 ! counts of
             Counts c \<Rightarrow>
               (case calc_prob1 c of
                  Inl err \<Rightarrow> (h1, Inl err)
                | Inr prob_1 \<Rightarrow>
                    (case array_set h1 prob_1s e prob_1 of
                       Inl err \<Rightarrow> (h1, Inl err)
                     | Inr h2 \<Rightarrow> extract_loop sdk g qubit prob_1s es h2))
           | _ \<Rightarrow> (h1, Inl AttributeError)))"

definition extract_prob1_data ::
  "'r sdk \<Rightarrow> globals \<Rightarrow> 'r heap \<Rightarrow> addr \<Rightarrow> qubit \<Rightarrow> 'r heap \<times> (py_error + addr)" where
  "extract_prob1_data sdk g h result qubit =
     (case alloc h (NdArray (replicate (n_exps g) 0)) of
        (h0, prob_1s) \<Rightarrow>
          (case extract_loop sdk g qubit prob_1s [0..<n_exps g] h0 of
             (h', Inl err) \<Rightarrow> (h', Inl err)
           | (h', Inr _) \<Rightarrow> (h', Inr prob_1s)))"

text \<open>
  The dictionary \<open>get_qubit_counts\<close> computes for experiment \<open>idx\<close> from the value
  \<open>r\<close> of the result object, without the store.
\<close>

definition qubit_counts :: "'r sdk \<Rightarrow> 'r \<Rightarrow> qubit \<Rightarrow> nat \<Rightarrow> py_error + counts" where
  "qubit_counts sdk r qubit idx =
     (case get_counts sdk r idx of
        Inl e \<Rightarrow> Inl e
      | Inr full \<Rightarrow> marginal_counts sdk full [index qubit])"

text \<open>
  What one turn of the loop of \<open>extract_prob1_data\<close> computes for experiment \<open>idx\<close>
  from the value \<open>r\<close> of the result object: the dictionary of \<open>get_qubit_counts\<close>
  given to \<open>calc_prob1\<close>, or the exception of the first of the calls that raises.
\<close>

definition experiment_prob1 :: "'r sdk \<Rightarrow> 'r \<Rightarrow> qubit \<Rightarrow> nat \<Rightarrow> py_error + real" where
  "experiment_prob1 sdk r qubit idx =
     (case qubit_counts sdk r qubit idx of
        Inl e \<Rightarrow> Inl e
      | Inr m \<Rightarrow> calc_prob1 m)"

text \<open>
  Following the claim's words, for comparison with \<open>calc_prob1\<close>: the probability of
  outcome \<open>k\<close> read off single-qubit counts, that is the share of the shots that gave
  \<open>k\<close> among the shots that gave \<open>'0'\<close> or \<open>'1'\<close>.
\<close>

definition outcome_probability :: "counts \<Rightarrow> string \<Rightarrow> real" where
  "outcome_probability counts k =
     real_of_int (dict_get counts k 0) /
     real_of_int (dict_get counts ''0'' 0 + dict_get counts ''1'' 0)"

text \<open>
  A concrete SDK for evaluation: the result object is the list of the experiments'
  count dictionaries, and the device has one qubit, so that the marginal counts over
  qubit 0 are the counts themselves.
\<close>

definition one_qubit_sdk :: "(counts list) sdk" where
  "one_qubit_sdk =
     \<lparr>get_counts = (\<lambda>r i. if i < length r then Inr (r ! i) else Inl (SdkError ''no such experiment'')),
      marginal_counts = (\<lambda>c idxs. if idxs = [0] then Inr c else Inl (SdkError ''indices out of range''))\<rparr>"

section \<open>Exercise 1: the fit\<close>

text \<open>
  \<^verbatim>\<open>
  def fit_t1(delays, prob1_data):
      fit_params, y_fit = fit_function(
          delays, prob1_data, inversion_recovery_function, [100])
      return fit_params[0], y_fit
  \<close>
  \<open>fit_function\<close> is imported from the module \<open>fitting\<close>, which is not among the
  sources: it is a parameter of the model, a function that raises or returns the pair of
  the fitted parameters and the fitted curve. \<open>fit_t1\<close> returns its result together
  with the list of the calls of \<open>fit_function\<close> it has made, so that the number of the
  calls and their arguments can be stated. \<open>fit_params[0]\<close> on an empty list raises
  \<open>IndexError\<close>.
\<close>

type_synonym model_fn = "real \<Rightarrow> real \<Rightarrow> py_error + real"

type_synonym fit_fn =
  "real list \<Rightarrow> real list \<Rightarrow> model_fn \<Rightarrow> real list \<Rightarrow> py_error + (real list \<times> real list)"

record fit_call =
  call_x :: "real list"
  call_y :: "real list"
  call_model :: model_fn
  call_init :: "real list"

definition fit_t1 ::
  "fit_fn \<Rightarrow> real list \<Rightarrow> real list \<Rightarrow> fit_call list \<times> (py_error + (real \<times> real list))" where
  "fit_t1 fit_function delays prob1_data =
     (let call = \<lparr>call_x = delays, call_y = prob1_data,
                  call_model = inversion_recovery_function, call_init = [100]\<rparr>
      in case fit_function delays prob1_data inversion_recovery_function [100] of
           Inl err \<Rightarrow> ([call], Inl err)
         | Inr (fit_params, y_fit) \<Rightarrow>
             (case fit_params of
                [] \<Rightarrow> ([call], Inl IndexError)
              | p # _ \<Rightarrow> ([call], Inr (p, y_fit))))"

section \<open>Session 1: the MaxCut objective\<close>

text \<open>
  \<^verbatim>\<open>
  n = 5
  edges = [(0, 1, 1.0), (0, 2, 1.0), (0, 3, 1.0), (1, 2, 1.0), (2, 3, 1.0), (2, 4, 1.0), (3, 4, 1.0)]
  x = mdl.binary_var_list('x{}'.format(i) for i in range(n))
  objective = mdl.sum([ w * (x[i] + x[j] - 2*x[i]*x[j]) for (i, j, w) in edges])
  \<close>
  \<open>objective\<close> is an expression in the five binary variables; the model is its value at
  an assignment \<open>x\<close>, the list of the values of the variables. The notebook's \<open>n\<close> is
  \<open>n_nodes\<close> here. Every index in \<open>edges\<close> is below \<open>n_nodes\<close>, so \<open>x[i]\<close> is in range
  for an assignment of that length.
\<close>

definition n_nodes :: nat where
  "n_nodes = 5"

definition edges :: "(nat \<times> nat \<times> real) list" where
  "edges = [(0, 1, 1.0), (0, 2, 1.0), (0, 3, 1.0), (1, 2, 1.0), (2, 3, 1.0), (2, 4, 1.0), (3, 4, 1.0)]"

definition objective :: "int list \<Rightarrow> real" where
  "objective x =
     sum_list (map (\<lambda>(i, j, w). w * real_of_int (x ! i + x ! j - 2 * x ! i * x ! j)) edges)"

text \<open>
  Following the claim's words: the cut value of an assignment, the total weight of the
  edges whose endpoints get different values.
\<close>

definition cut_value :: "(nat \<times> nat \<times> real) list \<Rightarrow> int list \<Rightarrow> real" where
  "cut_value es x = sum_list (map (\<lambda>(i, j, w). if x ! i \<noteq> x ! j then w else 0) es)"

section \<open>Session 2: error per Clifford\<close>

text \<open>
  Modelled from the spec: the notebook never computes the error per Clifford itself,
  it hands the results to \<open>rb.fitters.RBFitter\<close> of Qiskit Ignis, whose code is
  not among the sources. The definition is the formula of the notebook's text,
  \<open>EPC = (2^n - 1) / 2^n * (1 - alpha)\<close> for \<open>n\<close> qubits and the fitted decay rate
  \<open>alpha\<close>.
\<close>

definition epc :: "nat \<Rightarrow> real \<Rightarrow> real" where
  "epc n alpha = (2 ^ n - 1) / 2 ^ n * (1 - alpha)"

text \<open>
  The notebook fits twice, each time with the call
  \<^verbatim>\<open>rbfit = rb.fitters.RBFitter(result_list, xdata)\<close>:
  once on the results of the sequences built with \<open>rb_pattern = [[0]]\<close> and once on
  those built with \<open>rb_pattern = [[0, 1]]\<close>. Neither call passes the pattern.
\<close>

text \<open>
  Modelled from the spec: \<open>RBFitter\<close> is code of Qiskit Ignis and is not among the
  sources. The error per Clifford it reports is the formula above, with \<open>n\<close> the number
  of the qubits of the first entry of its pattern. Its signature is
  \<open>RBFitter(backend_result, cliff_lengths, rb_pattern=None)\<close>, and without a pattern
  it takes \<open>[[0]]\<close>. The decay rate \<open>alpha\<close> that it fits is a parameter here.
\<close>

definition rb_fitter_epc :: "nat list list option \<Rightarrow> real \<Rightarrow> py_error + real" where
  "rb_fitter_epc rb_pattern alpha =
     (case (case rb_pattern of None \<Rightarrow> [[0]] | Some pattern \<Rightarrow> pattern) of
        [] \<Rightarrow> Inl IndexError
      | qubits # _ \<Rightarrow> Inr (epc (length qubits) alpha))"

text \<open>The pattern of the 2-qubit sequences, and the two fits as the cells make them.\<close>

definition two_qubit_rb_pattern :: "nat list list" where
  "two_qubit_rb_pattern = [[0, 1]]"

definition one_qubit_cell_epc :: "real \<Rightarrow> py_error + real" where
  "one_qubit_cell_epc alpha = rb_fitter_epc None alpha"

definition two_qubit_cell_epc :: "real \<Rightarrow> py_error + real" where
  "two_qubit_cell_epc alpha = rb_fitter_epc None alpha"

section \<open>Properties of \<open>calc_prob1\<close>\<close>

lemma float_overflow_bound_large: "2 ^ 54 - 1 \<le> float_overflow_bound"
proof -
  have "(2::real) ^ 1024 = 2 ^ 54 * 2 ^ 970"
    by (simp add: power_add [symmetric])
  moreover have "(1::real) \<le> 2 ^ 970"
    by simp
  ultimately have "(2::real) ^ 54 - 1 \<le> 2 ^ 1024 - 2 ^ 970"
    by (simp add: algebra_simps)
  then show ?thesis
    by (simp add: float_overflow_bound_def)
qed

lemma float_overflow_bound_gt_1: "1 < float_overflow_bound"
  using float_overflow_bound_large by simp

lemma calc_prob1_value:
  assumes "dict_get counts ''0'' 0 + dict_get counts ''1'' 0 \<noteq> 0"
    and "\<bar>real_of_int (dict_get counts ''1'' 0) /
          real_of_int (dict_get counts ''0'' 0 + dict_get counts ''1'' 0)\<bar> < float_overflow_bound"
  shows "calc_prob1 counts =
     Inr (real_of_int (dict_get counts ''1'' 0) /
          real_of_int (dict_get counts ''0'' 0 + dict_get counts ''1'' 0))"
  using assms by (simp add: calc_prob1_def Let_def)

lemma calc_prob1_returns:
  assumes "calc_prob1 counts = Inr p"
  shows "dict_get counts ''0'' 0 + dict_get counts ''1'' 0 \<noteq> 0
         \<and> p = real_of_int (dict_get counts ''1'' 0) /
                real_of_int (dict_get counts ''0'' 0 + dict_get counts ''1'' 0)"
  using assms by (auto simp add: calc_prob1_def Let_def split: if_splits)

lemma calc_prob1_raises:
  "dict_get counts ''0'' 0 + dict_get counts ''1'' 0 = 0 \<Longrightarrow>
   calc_prob1 counts = Inl ZeroDivisionError"
  by (simp add: calc_prob1_def Let_def)

lemma calc_prob1_ratio_bounds:
  assumes "0 \<le> dict_get counts ''0'' 0"
    and "0 \<le> dict_get counts ''1'' 0"
    and "0 < dict_get counts ''0'' 0 + dict_get counts ''1'' 0"
  shows "\<exists>p. calc_prob1 counts = Inr p
           \<and> p = real_of_int (dict_get counts ''1'' 0) /
                 real_of_int (dict_get counts ''0'' 0 + dict_get counts ''1'' 0)
           \<and> 0 \<le> p \<and> p \<le> 1"
proof -
  let ?n = "dict_get counts ''1'' 0"
  let ?d = "dict_get counts ''0'' 0 + dict_get counts ''1'' 0"
  let ?p = "real_of_int ?n / real_of_int ?d"
  from assms(2,3) have lo: "0 \<le> ?p"
    by simp
  from assms(1) have "?n \<le> ?d"
    by simp
  then have "real_of_int ?n \<le> real_of_int ?d"
    by linarith
  with assms(3) have hi: "?p \<le> 1"
    by (simp add: divide_le_eq_1)
  from lo hi float_overflow_bound_gt_1 have "\<bar>?p\<bar> < float_overflow_bound"
    by linarith
  with assms(3) have val: "calc_prob1 counts = Inr ?p"
    by (simp add: calc_prob1_value)
  from val lo hi show ?thesis
    by blast
qed

text \<open>
  Claim C2. For a counts dictionary whose entries at \<open>'0'\<close> and \<open>'1'\<close> (an absent
  key read as 0) are non-negative integers with a positive sum, \<open>calc_prob1\<close> returns
  the count of \<open>'1'\<close> divided by the sum of the two counts, and that value lies in the
  closed interval from 0 to 1.
\<close>

theorem calc_prob1_ratio_in_unit_interval:
  assumes "0 \<le> dict_get counts ''0'' 0"
    and "0 \<le> dict_get counts ''1'' 0"
    and "0 < dict_get counts ''0'' 0 + dict_get counts ''1'' 0"
  shows "\<exists>p. calc_prob1 counts = Inr p
           \<and> p = real_of_int (dict_get counts ''1'' 0) /
                 real_of_int (dict_get counts ''0'' 0 + dict_get counts ''1'' 0)
           \<and> 0 \<le> p \<and> p \<le> 1"
  using assms by (rule calc_prob1_ratio_bounds)

theorem calc_prob1_ratio_in_unit_interval_witness:
  "0 \<le> dict_get [''0'' \<mapsto> 1, ''1'' \<mapsto> 3] ''0'' 0
   \<and> 0 \<le> dict_get [''0'' \<mapsto> 1, ''1'' \<mapsto> 3] ''1'' 0
   \<and> 0 < dict_get [''0'' \<mapsto> 1, ''1'' \<mapsto> 3] ''0'' 0 + dict_get [''0'' \<mapsto> 1, ''1'' \<mapsto> 3] ''1'' 0
   \<and> calc_prob1 [''0'' \<mapsto> 1, ''1'' \<mapsto> 3] = Inr (3 / 4)
   \<and> (0::real) \<le> 3 / 4 \<and> (3::real) / 4 \<le> 1"
  using calc_prob1_ratio_in_unit_interval [of "[''0'' \<mapsto> 1, ''1'' \<mapsto> 3]"]
  by (auto simp add: dict_get_def)

text \<open>
  Claim C8. \<open>calc_prob1\<close> depends only on the entries at \<open>'0'\<close> and \<open>'1'\<close>: two
  dictionaries that agree there (an absent key read as 0) give the same result, be it a
  value or the exception. So a count stored under any other bitstring, such as
  \<open>'00'\<close> or \<open>'01'\<close>, changes neither the numerator nor the denominator.
\<close>

theorem calc_prob1_depends_on_0_and_1_only:
  assumes "dict_get c ''0'' 0 = dict_get c' ''0'' 0"
    and "dict_get c ''1'' 0 = dict_get c' ''1'' 0"
    and "k \<noteq> ''0''" and "k \<noteq> ''1''"
  shows "calc_prob1 c = calc_prob1 c' \<and> calc_prob1 (c(k \<mapsto> v)) = calc_prob1 c"
proof -
  from assms(1,2) have same: "calc_prob1 c = calc_prob1 c'"
    by (simp add: calc_prob1_def)
  from assms(3,4) have "dict_get (c(k \<mapsto> v)) ''0'' 0 = dict_get c ''0'' 0"
    and "dict_get (c(k \<mapsto> v)) ''1'' 0 = dict_get c ''1'' 0"
    by (simp_all add: dict_get_def)
  then have "calc_prob1 (c(k \<mapsto> v)) = calc_prob1 c"
    by (simp add: calc_prob1_def)
  with same show ?thesis
    by simp
qed

theorem calc_prob1_depends_on_0_and_1_only_witness:
  "dict_get [''0'' \<mapsto> 1, ''1'' \<mapsto> 3] ''0'' 0 = dict_get [''1'' \<mapsto> 3, ''0'' \<mapsto> 1, ''11'' \<mapsto> 9] ''0'' 0
   \<and> dict_get [''0'' \<mapsto> 1, ''1'' \<mapsto> 3] ''1'' 0 = dict_get [''1'' \<mapsto> 3, ''0'' \<mapsto> 1, ''11'' \<mapsto> 9] ''1'' 0
   \<and> ''00'' \<noteq> ''0'' \<and> ''00'' \<noteq> ''1''
   \<and> calc_prob1 [''0'' \<mapsto> 1, ''1'' \<mapsto> 3] = calc_prob1 [''1'' \<mapsto> 3, ''0'' \<mapsto> 1, ''11'' \<mapsto> 9]
   \<and> calc_prob1 [''0'' \<mapsto> 1, ''1'' \<mapsto> 3, ''00'' \<mapsto> 7] = calc_prob1 [''0'' \<mapsto> 1, ''1'' \<mapsto> 3]"
  using calc_prob1_depends_on_0_and_1_only
    [of "[''0'' \<mapsto> 1, ''1'' \<mapsto> 3]" "[''1'' \<mapsto> 3, ''0'' \<mapsto> 1, ''11'' \<mapsto> 9]" "''00''" 7]
  by (simp add: dict_get_def)

section \<open>Properties of \<open>inversion_recovery_function\<close>\<close>

text \<open>
  The expression \<open>e^(-tau/t1)\<close> itself, before any rounding: for \<open>t1 > 0\<close> it is 1 at
  delay 0, strictly decreasing in the delay, and greater than 0 and at most 1 on the
  non-negative delays.
\<close>

lemma inversion_recovery_function_exact_decay:
  assumes "0 < t1" and "0 \<le> tau" and "tau < tau'"
  shows "inversion_recovery_function 0 t1 = Inr 1
         \<and> (\<exists>p p'. inversion_recovery_function tau t1 = Inr p
                    \<and> inversion_recovery_function tau' t1 = Inr p'
                    \<and> p' < p \<and> 0 < p \<and> p \<le> 1)"
proof -
  from assms(1) have nz: "t1 \<noteq> 0"
    by simp
  from assms(1,3) have "- tau' / t1 < - tau / t1"
    by (simp add: divide_strict_right_mono)
  then have dec: "exp (- tau' / t1) < exp (- tau / t1)"
    by simp
  from assms(1,2) have "- tau / t1 \<le> 0"
    by (simp add: divide_nonpos_pos)
  then have le1: "exp (- tau / t1) \<le> 1"
    by simp
  have pos: "0 < exp (- tau / t1)"
    by simp
  from nz dec le1 pos show ?thesis
    by (simp add: inversion_recovery_function_def)
qed

subsection \<open>Rounding to float64\<close>

lemma round_half_even_bounds:
  "of_int (round_half_even r) \<le> r + 1 / 2 \<and> r - 1 / 2 \<le> of_int (round_half_even r)"
  unfolding round_half_even_def Let_def
  by (auto; linarith)

lemma round_half_even_floor: "\<lfloor>r\<rfloor> \<le> round_half_even r \<and> round_half_even r \<le> \<lfloor>r\<rfloor> + 1"
  unfolding round_half_even_def Let_def by auto

lemma round_half_even_mono:
  assumes "r \<le> s"
  shows "round_half_even r \<le> round_half_even s"
proof (cases "\<lfloor>r\<rfloor> = \<lfloor>s\<rfloor>")
  case True
  with assms show ?thesis
    unfolding round_half_even_def Let_def by auto
next
  case False
  with assms have "\<lfloor>r\<rfloor> + 1 \<le> \<lfloor>s\<rfloor>"
    using floor_mono [of r s] by linarith
  with round_half_even_floor [of r] round_half_even_floor [of s] show ?thesis
    by linarith
qed

lemma round_half_even_of_int [simp]: "round_half_even (of_int n) = n"
  by (simp add: round_half_even_def)

lemma round_half_even_near:
  assumes "\<bar>r - of_int n\<bar> < 1 / 2"
  shows "round_half_even r = n"
proof -
  have "\<lfloor>r\<rfloor> = n \<or> \<lfloor>r\<rfloor> = n - 1"
    using assms by linarith
  then show ?thesis
  proof
    assume "\<lfloor>r\<rfloor> = n"
    moreover from this assms have "r - of_int n < 1 / 2" by linarith
    ultimately show ?thesis by (simp add: round_half_even_def)
  next
    assume f: "\<lfloor>r\<rfloor> = n - 1"
    from assms have "of_int n - 1 / 2 < r" by linarith
    then have "1 / 2 < r - of_int (n - 1)" by simp
    with f show ?thesis by (simp add: round_half_even_def Let_def)
  qed
qed

lemma float64_ulp_pos [simp]: "0 < float64_ulp x"
  by (simp add: float64_ulp_def)

lemma float64_ulp_nonneg [simp]: "0 \<le> float64_ulp x"
  by (simp add: float64_ulp_def)

lemma float64_ulp_nonzero [simp]: "float64_ulp x \<noteq> 0"
  by (simp add: float64_ulp_def)

lemma float64_exponent_ge: "- 1022 \<le> float64_exponent x"
  by (simp add: float64_exponent_def)

lemma float64_exponent_upper:
  assumes "0 < x"
  shows "x < 2 powr (of_int (float64_exponent x) + 1)"
proof -
  have "log 2 x < of_int \<lfloor>log 2 x\<rfloor> + 1"
    by linarith
  also have "\<dots> \<le> of_int (float64_exponent x) + 1"
    using assms by (simp add: float64_exponent_def)
  finally have "log 2 x < of_int (float64_exponent x) + 1" .
  with assms show ?thesis
    by (simp add: log_less_iff)
qed

lemma float64_exponent_lower:
  assumes "0 < x" and "- 1022 < float64_exponent x"
  shows "2 powr (of_int (float64_exponent x)) \<le> x"
proof -
  from assms have "float64_exponent x = \<lfloor>log 2 x\<rfloor>"
    by (simp add: float64_exponent_def max_def split: if_splits)
  then have "of_int (float64_exponent x) \<le> log 2 x"
    by simp
  with assms(1) show ?thesis
    by (simp add: le_log_iff)
qed

lemma float64_exponent_mono:
  assumes "0 < x" and "x \<le> y"
  shows "float64_exponent x \<le> float64_exponent y"
proof -
  from assms have "log 2 x \<le> log 2 y"
    by simp
  then have "\<lfloor>log 2 x\<rfloor> \<le> \<lfloor>log 2 y\<rfloor>"
    by (rule floor_mono)
  then have "max \<lfloor>log 2 x\<rfloor> (- 1022) \<le> max \<lfloor>log 2 y\<rfloor> (- 1022)"
    by (rule max.mono) simp
  moreover from assms have "\<bar>x\<bar> = x" and "\<bar>y\<bar> = y"
    by simp_all
  ultimately show ?thesis
    by (simp only: float64_exponent_def)
qed

lemma float64_exponent_eq:
  assumes "2 powr (of_int e) \<le> x" and "x < 2 powr (of_int e + 1)" and "- 1022 \<le> e"
  shows "float64_exponent x = e"
proof -
  have "0 < 2 powr (real_of_int e)"
    by simp
  with assms(1) have pos: "0 < x"
    by linarith
  from pos assms(1) have "of_int e \<le> log 2 x"
    by (simp add: le_log_iff)
  moreover from pos assms(2) have "log 2 x < of_int e + 1"
    by (simp add: log_less_iff)
  ultimately have "\<lfloor>log 2 x\<rfloor> = e"
    by linarith
  with pos assms(3) show ?thesis
    by (simp add: float64_exponent_def)
qed

lemma float64_exponent_subnormal:
  assumes "0 < x" and "x < 2 powr (- 1022)"
  shows "float64_exponent x = - 1022"
proof -
  from assms have "log 2 x < - 1022"
    by (simp add: log_less_iff)
  then have "\<lfloor>log 2 x\<rfloor> < - 1022"
    by linarith
  with assms(1) show ?thesis
    by (simp add: float64_exponent_def)
qed

lemma float64_nearest_magnitude_nonneg:
  assumes "0 \<le> m"
  shows "0 \<le> float64_nearest_magnitude m"
proof -
  from assms have "0 \<le> m / float64_ulp m"
    by simp
  then have "round_half_even 0 \<le> round_half_even (m / float64_ulp m)"
    by (rule round_half_even_mono)
  then have "0 \<le> round_half_even (m / float64_ulp m)"
    using round_half_even_of_int [of 0] by simp
  then show ?thesis
    by (simp add: float64_nearest_magnitude_def)
qed

lemma float64_nearest_magnitude_upper:
  assumes "0 < m"
  shows "float64_nearest_magnitude m \<le> 2 powr (of_int (float64_exponent m) + 1)"
proof -
  let ?e = "real_of_int (float64_exponent m)"
  have u: "float64_ulp m = 2 powr (?e - 52)"
    by (simp add: float64_ulp_def)
  have "?e + 1 = 53 + (?e - 52)"
    by simp
  then have "2 powr (?e + 1) = (2::real) powr (53 + (?e - 52))"
    by (simp only:)
  then have split: "2 powr (?e + 1) = 2 powr 53 * 2 powr (?e - 52)"
    by (simp only: powr_add)
  from assms have "m < 2 powr (?e + 1)"
    by (rule float64_exponent_upper)
  with split u have "m / float64_ulp m \<le> 2 powr 53"
    by (simp add: pos_divide_le_eq)
  also have "(2::real) powr 53 = of_int (2 ^ 53)"
    by simp
  finally have "round_half_even (m / float64_ulp m) \<le> round_half_even (of_int (2 ^ 53))"
    by (rule round_half_even_mono)
  then have "round_half_even (m / float64_ulp m) \<le> 2 ^ 53"
    by (simp only: round_half_even_of_int)
  then have "real_of_int (round_half_even (m / float64_ulp m)) \<le> of_int (2 ^ 53)"
    by (simp only: of_int_le_iff)
  then have "real_of_int (round_half_even (m / float64_ulp m)) * float64_ulp m
      \<le> of_int (2 ^ 53) * float64_ulp m"
    by (rule mult_right_mono) simp
  also have "of_int (2 ^ 53) * float64_ulp m = 2 powr (?e + 1)"
    using split u by simp
  finally show ?thesis
    by (simp only: float64_nearest_magnitude_def)
qed

lemma float64_nearest_magnitude_lower:
  assumes "0 < m" and "- 1022 < float64_exponent m"
  shows "2 powr (of_int (float64_exponent m)) \<le> float64_nearest_magnitude m"
proof -
  let ?e = "real_of_int (float64_exponent m)"
  have u: "float64_ulp m = 2 powr (?e - 52)"
    by (simp add: float64_ulp_def)
  have "?e = 52 + (?e - 52)"
    by simp
  then have "2 powr ?e = (2::real) powr (52 + (?e - 52))"
    by (simp only:)
  then have split: "2 powr ?e = 2 powr 52 * 2 powr (?e - 52)"
    by (simp only: powr_add)
  from assms have "2 powr ?e \<le> m"
    by (rule float64_exponent_lower)
  with split u have "2 powr 52 \<le> m / float64_ulp m"
    by (simp add: pos_le_divide_eq)
  moreover have "(2::real) powr 52 = of_int (2 ^ 52)"
    by simp
  ultimately have "of_int (2 ^ 52) \<le> m / float64_ulp m"
    by simp
  then have "round_half_even (of_int (2 ^ 52)) \<le> round_half_even (m / float64_ulp m)"
    by (rule round_half_even_mono)
  then have "2 ^ 52 \<le> round_half_even (m / float64_ulp m)"
    by (simp only: round_half_even_of_int)
  then have "of_int (2 ^ 52) \<le> real_of_int (round_half_even (m / float64_ulp m))"
    by (simp only: of_int_le_iff)
  then have "of_int (2 ^ 52) * float64_ulp m
      \<le> real_of_int (round_half_even (m / float64_ulp m)) * float64_ulp m"
    by (rule mult_right_mono) simp
  moreover have "of_int (2 ^ 52) * float64_ulp m = 2 powr ?e"
    using split u by simp
  ultimately show ?thesis
    by (simp only: float64_nearest_magnitude_def)
qed

lemma float64_nearest_magnitude_mono:
  assumes "0 < x" and "x \<le> y"
  shows "float64_nearest_magnitude x \<le> float64_nearest_magnitude y"
proof -
  from assms have ypos: "0 < y"
    by simp
  from assms have le: "float64_exponent x \<le> float64_exponent y"
    by (rule float64_exponent_mono)
  show ?thesis
  proof (cases "float64_exponent x = float64_exponent y")
    case True
    then have u: "float64_ulp x = float64_ulp y"
      by (simp add: float64_ulp_def)
    from assms(2) have "x / float64_ulp y \<le> y / float64_ulp y"
      by (simp add: divide_right_mono)
    then have "round_half_even (x / float64_ulp y) \<le> round_half_even (y / float64_ulp y)"
      by (rule round_half_even_mono)
    then have "real_of_int (round_half_even (x / float64_ulp y)) * float64_ulp y
        \<le> real_of_int (round_half_even (y / float64_ulp y)) * float64_ulp y"
      by (simp add: mult_right_mono)
    with u show ?thesis
      by (simp add: float64_nearest_magnitude_def)
  next
    case False
    with le have lt: "float64_exponent x + 1 \<le> float64_exponent y"
      by simp
    with float64_exponent_ge [of x] have big: "- 1022 < float64_exponent y"
      by linarith
    from assms(1) have "float64_nearest_magnitude x \<le> 2 powr (of_int (float64_exponent x) + 1)"
      by (rule float64_nearest_magnitude_upper)
    also from lt have "of_int (float64_exponent x) + 1 \<le> real_of_int (float64_exponent y)"
      by linarith
    then have "(2::real) powr (of_int (float64_exponent x) + 1) \<le> 2 powr (of_int (float64_exponent y))"
      by simp
    also from ypos big have "2 powr (of_int (float64_exponent y)) \<le> float64_nearest_magnitude y"
      by (rule float64_nearest_magnitude_lower)
    finally show ?thesis .
  qed
qed

lemma float64_nearest_magnitude_0 [simp]: "float64_nearest_magnitude 0 = 0"
  by (simp add: float64_nearest_magnitude_def round_half_even_def)

lemma float64_nearest_mono:
  assumes "x \<le> y"
  shows "float64_nearest x \<le> float64_nearest y"
proof -
  consider "0 < x" | "x \<le> 0" "0 \<le> y" | "y < 0"
    by linarith
  then show ?thesis
  proof cases
    case 1
    from 1 assms have "float64_nearest_magnitude x \<le> float64_nearest_magnitude y"
      by (rule float64_nearest_magnitude_mono)
    with 1 assms show ?thesis
      by (simp add: float64_nearest_def)
  next
    case 2
    have "float64_nearest x \<le> 0"
      using float64_nearest_magnitude_nonneg [of "\<bar>x\<bar>"] 2(1)
      by (cases "x = 0") (simp_all add: float64_nearest_def)
    moreover have "0 \<le> float64_nearest y"
      using float64_nearest_magnitude_nonneg [of "\<bar>y\<bar>"] 2(2)
      by (cases "y = 0") (simp_all add: float64_nearest_def)
    ultimately show ?thesis
      by simp
  next
    case 3
    with assms have "0 < - y" and "- y \<le> - x"
      by simp_all
    then have "float64_nearest_magnitude (- y) \<le> float64_nearest_magnitude (- x)"
      by (rule float64_nearest_magnitude_mono)
    with 3 assms show ?thesis
      by (simp add: float64_nearest_def)
  qed
qed

lemma float64_nearest_0 [simp]: "float64_nearest 0 = 0"
  by (simp add: float64_nearest_def)

lemma float64_nearest_1: "float64_nearest 1 = 1"
proof -
  have e: "float64_exponent 1 = 0"
    by (rule float64_exponent_eq) simp_all
  then have u: "float64_ulp 1 = 2 powr (- 52)"
    by (simp add: float64_ulp_def)
  have "1 / (2::real) powr (- 52) = of_int (2 ^ 52)"
    by (simp add: powr_minus field_simps)
  then have "round_half_even (1 / 2 powr (- 52)) = 2 ^ 52"
    by (simp only: round_half_even_of_int)
  with u have "float64_nearest_magnitude 1 = of_int (2 ^ 52) * 2 powr (- 52)"
    by (simp add: float64_nearest_magnitude_def)
  also have "\<dots> = 1"
    by (simp add: powr_minus field_simps)
  finally show ?thesis
    by (simp add: float64_nearest_def)
qed

lemma np_exp_of_nonpositive:
  assumes "x \<le> 0"
  shows "np_exp (float64_round x) =
           Finite (if x \<le> - float_overflow_bound then 0
                   else float64_nearest (exp (float64_nearest x)))"
proof (cases "x \<le> - float_overflow_bound")
  case True
  with assms float_overflow_bound_gt_1 show ?thesis
    by (simp add: float64_round_def)
next
  case False
  from assms have "float64_nearest x \<le> float64_nearest 0"
    by (rule float64_nearest_mono)
  then have "exp (float64_nearest x) \<le> 1"
    by simp
  with float_overflow_bound_gt_1 have small: "\<not> float_overflow_bound \<le> exp (float64_nearest x)"
    by linarith
  have "0 < exp (float64_nearest x)"
    by simp
  with float_overflow_bound_gt_1 have notneg: "\<not> exp (float64_nearest x) \<le> - float_overflow_bound"
    by linarith
  from assms float_overflow_bound_gt_1 have "\<not> float_overflow_bound \<le> x"
    by linarith
  with False small notneg show ?thesis
    by (simp add: float64_round_def)
qed

lemma float64_exp_range:
  assumes "x \<le> 0"
  shows "0 \<le> float64_nearest (exp (float64_nearest x))"
    and "float64_nearest (exp (float64_nearest x)) \<le> 1"
proof -
  have "float64_nearest 0 \<le> float64_nearest (exp (float64_nearest x))"
    by (rule float64_nearest_mono) simp
  then show "0 \<le> float64_nearest (exp (float64_nearest x))"
    by simp
  from assms have "float64_nearest x \<le> float64_nearest 0"
    by (rule float64_nearest_mono)
  then have "exp (float64_nearest x) \<le> 1"
    by simp
  then have "float64_nearest (exp (float64_nearest x)) \<le> float64_nearest 1"
    by (rule float64_nearest_mono)
  then show "float64_nearest (exp (float64_nearest x)) \<le> 1"
    by (simp only: float64_nearest_1)
qed

lemma float64_exp_mono:
  assumes "x' \<le> x"
  shows "float64_nearest (exp (float64_nearest x')) \<le> float64_nearest (exp (float64_nearest x))"
proof -
  from assms have "float64_nearest x' \<le> float64_nearest x"
    by (rule float64_nearest_mono)
  then have "exp (float64_nearest x') \<le> exp (float64_nearest x)"
    by simp
  then show ?thesis
    by (rule float64_nearest_mono)
qed

lemma float64_nearest_magnitude_near:
  assumes "\<bar>m / float64_ulp m - of_int k\<bar> < 1 / 2"
  shows "float64_nearest_magnitude m = of_int k * float64_ulp m"
  using round_half_even_near [OF assms] by (simp add: float64_nearest_magnitude_def)

lemma float64_nearest_underflow:
  assumes "0 < x" and "x < 2 powr (- 1075)"
  shows "float64_nearest x = 0"
proof -
  have "(2::real) powr (- 1075) \<le> 2 powr (- 1022)"
    by (rule powr_mono) simp_all
  with assms(2) have "x < 2 powr (- 1022)"
    by linarith
  with assms(1) have "float64_exponent x = - 1022"
    by (rule float64_exponent_subnormal)
  then have u: "float64_ulp x = 2 powr (- 1074)"
    by (simp add: float64_ulp_def)
  have "(2::real) powr (- 1075) = 2 powr (- 1 + - 1074)"
    by simp
  also have "\<dots> = 2 powr (- 1) * 2 powr (- 1074)"
    by (simp only: powr_add)
  also have "\<dots> = 1 / 2 * 2 powr (- 1074)"
    by (simp add: powr_minus)
  finally have "x < 1 / 2 * 2 powr (- 1074)"
    using assms(2) by simp
  then have hi: "x / 2 powr (- 1074) < 1 / 2"
    by (simp add: pos_divide_less_eq)
  from assms(1) have lo: "0 \<le> x / 2 powr (- 1074)"
    by simp
  from lo hi have "\<bar>x / 2 powr (- 1074) - of_int 0\<bar> < 1 / 2"
    by (simp only: of_int_0 diff_zero abs_of_nonneg)
  then have "\<bar>x / float64_ulp x - of_int 0\<bar> < 1 / 2"
    by (simp only: u)
  then have "float64_nearest_magnitude x = of_int 0 * float64_ulp x"
    by (rule float64_nearest_magnitude_near)
  with assms(1) show ?thesis
    by (simp add: float64_nearest_def)
qed

lemma exp_1000_large: "2 powr 1075 < exp (1000::real)"
proof -
  have "(3 / 2 :: real) \<le> exp (1 / 2)"
    using exp_ge_add_one_self [of "1 / 2 :: real"] by simp
  then have "(3 / 2 :: real) ^ 2000 \<le> exp (1 / 2) ^ 2000"
    by (rule power_mono) simp
  also have "exp (1 / 2 :: real) ^ 2000 = exp (of_nat 2000 * (1 / 2))"
    by (simp only: exp_of_nat_mult)
  also have "\<dots> = exp (1000::real)"
    by simp
  finally have big: "(3 / 2 :: real) ^ 2000 \<le> exp 1000" .
  have "(2::real) ^ 7 < (3 / 2) ^ 12"
    by (simp add: power_divide)
  then have "((2::real) ^ 7) ^ 166 < ((3 / 2) ^ 12) ^ 166"
    by (rule power_strict_mono) simp_all
  then have "(2::real) ^ 1162 < (3 / 2) ^ 1992"
    by (simp only: power_mult [symmetric]) simp
  moreover have "(2::real) ^ 1075 \<le> 2 ^ 1162"
    by (rule power_increasing) simp_all
  moreover have "(3 / 2 :: real) ^ 1992 \<le> (3 / 2) ^ 2000"
    by (rule power_increasing) simp_all
  ultimately have "(2::real) ^ 1075 < (3 / 2) ^ 2000"
    by linarith
  moreover have "(2::real) powr 1075 = 2 ^ 1075"
    by simp
  ultimately show ?thesis
    using big by linarith
qed

lemma float64_exp_underflows: "float64_nearest (exp (- 1000)) = 0"
proof (rule float64_nearest_underflow)
  show "0 < exp (- 1000 :: real)"
    by simp
  have "exp (- 1000 :: real) = 1 / exp 1000"
    by (simp add: exp_minus field_simps)
  also have "\<dots> < 1 / 2 powr 1075"
    using exp_1000_large by (simp add: frac_less2)
  also have "\<dots> = 2 powr (- 1075)"
    by (simp add: powr_minus field_simps)
  finally show "exp (- 1000 :: real) < 2 powr (- 1075)" .
qed

lemma float64_nearest_1000: "float64_nearest (- 1000) = - 1000"
proof -
  have e: "float64_exponent 1000 = 9"
    by (rule float64_exponent_eq) simp_all
  then have u: "float64_ulp 1000 = 2 powr (- 43)"
    by (simp add: float64_ulp_def)
  have q: "1000 / (2::real) powr (- 43) = of_int (1000 * 2 ^ 43)"
    by (simp add: powr_minus field_simps)
  have "\<bar>1000 / float64_ulp 1000 - of_int (1000 * 2 ^ 43)\<bar> < 1 / 2"
    by (simp only: u q)
  then have "float64_nearest_magnitude 1000 = of_int (1000 * 2 ^ 43) * float64_ulp 1000"
    by (rule float64_nearest_magnitude_near)
  also have "\<dots> = 1000"
    by (simp add: u powr_minus field_simps)
  finally show ?thesis
    by (simp add: float64_nearest_def)
qed

lemma float64_nearest_tiny: "float64_nearest (- (1 / 2 ^ 60)) = - (1 / 2 ^ 60)"
proof -
  let ?m = "1 / 2 ^ 60 :: real"
  have m: "?m = 2 powr (- 60)"
    by (simp add: powr_minus field_simps)
  have e: "float64_exponent ?m = - 60"
    by (rule float64_exponent_eq) (simp_all add: powr_minus)
  then have u: "float64_ulp ?m = 2 powr (- 112)"
    by (simp add: float64_ulp_def)
  have q: "?m / (2::real) powr (- 112) = of_int (2 ^ 52)"
    by (simp add: powr_minus field_simps)
  have "\<bar>?m / float64_ulp ?m - of_int (2 ^ 52)\<bar> < 1 / 2"
    by (simp only: u q)
  then have "float64_nearest_magnitude ?m = of_int (2 ^ 52) * float64_ulp ?m"
    by (rule float64_nearest_magnitude_near)
  also have "\<dots> = ?m"
    by (simp only: u) (simp add: powr_minus)
  finally have "float64_nearest_magnitude ?m = ?m" .
  moreover have "sgn (- ?m) = - 1" and "\<bar>- ?m\<bar> = ?m"
    by simp_all
  ultimately show ?thesis
    by (simp only: float64_nearest_def)
qed

lemma float64_exp_rounds_to_1: "float64_nearest (exp (- (1 / 2 ^ 60))) = 1"
proof -
  let ?x = "exp (- (1 / 2 ^ 60)) :: real"
  have lo: "1 - 1 / 2 ^ 60 \<le> ?x"
    using exp_ge_add_one_self [of "- (1 / 2 ^ 60) :: real"] by simp
  have hi: "?x < 1"
    by simp
  have pos: "0 < ?x"
    by simp
  from lo have half: "1 / 2 \<le> ?x"
    by simp
  have e: "float64_exponent ?x = - 1"
  proof (rule float64_exponent_eq)
    from half show "2 powr real_of_int (- 1) \<le> ?x"
      by (simp add: powr_minus)
    from hi show "?x < 2 powr (real_of_int (- 1) + 1)"
      by simp
  qed simp
  then have u: "float64_ulp ?x = 2 powr (- 53)"
    by (simp add: float64_ulp_def)
  have p: "(2::real) powr (- 53) = 1 / 2 ^ 53"
    by (simp add: powr_minus field_simps)
  from lo have "(1 - 1 / 2 ^ 60) * 2 ^ 53 \<le> ?x * 2 ^ 53"
    by (simp only: mult_le_cancel_right) simp
  then have "2 ^ 53 - 1 / 2 ^ 7 \<le> ?x * 2 ^ 53"
    by (simp add: algebra_simps)
  moreover from hi have "?x * 2 ^ 53 < 2 ^ 53"
    by simp
  ultimately have "\<bar>?x * 2 ^ 53 - of_int (2 ^ 53)\<bar> < 1 / 2"
    by simp
  then have "\<bar>?x / float64_ulp ?x - of_int (2 ^ 53)\<bar> < 1 / 2"
    by (simp only: u p) simp
  then have "float64_nearest_magnitude ?x = of_int (2 ^ 53) * float64_ulp ?x"
    by (rule float64_nearest_magnitude_near)
  also have "\<dots> = 1"
    by (simp only: u p) simp
  finally have "float64_nearest_magnitude ?x = 1" .
  moreover from pos have "sgn ?x = 1" and "\<bar>?x\<bar> = ?x"
    by simp_all
  ultimately show ?thesis
    by (simp only: float64_nearest_def mult_1)
qed

subsection \<open>The model function on float64 numbers\<close>

lemma float64_value_at_zero:
  "t1 \<noteq> 0 \<Longrightarrow> inversion_recovery_function_float64 0 t1 = Inr (Finite 1)"
  using float_overflow_bound_gt_1
  by (simp add: inversion_recovery_function_float64_def float64_round_def float64_nearest_1)

text \<open>
  Claim C9, as stated, says that for a fixed \<open>t1 > 0\<close> the function is strictly
  decreasing in the delay and takes values greater than 0. On float64 numbers it does
  neither: with \<open>t1 = 1\<close> its value at the delay 1000 is 0 (the exponential is below the
  least positive float), and its value at the delay \<open>2^(-60)\<close> is 1, as at the delay 0.
\<close>

theorem inversion_recovery_function_underflows_and_repeats:
  "inversion_recovery_function_float64 1000 1 = Inr (Finite 0)
   \<and> inversion_recovery_function_float64 0 1 = Inr (Finite 1)
   \<and> inversion_recovery_function_float64 (1 / 2 ^ 60) 1 = Inr (Finite 1)"
proof -
  have big: "(1000::real) < float_overflow_bound"
    using float_overflow_bound_large by simp
  have "np_exp (float64_round (- 1000)) = Finite (float64_nearest (exp (float64_nearest (- 1000))))"
    using big by (simp add: np_exp_of_nonpositive)
  then have a: "inversion_recovery_function_float64 1000 1 = Inr (Finite 0)"
    by (simp add: inversion_recovery_function_float64_def float64_nearest_1000
        float64_exp_underflows)
  have b: "inversion_recovery_function_float64 0 1 = Inr (Finite 1)"
    using float64_value_at_zero [of 1] by simp
  have "(1 / 2 ^ 60 :: real) < float_overflow_bound"
    using float_overflow_bound_gt_1 by simp
  then have "np_exp (float64_round (- (1 / 2 ^ 60))) =
      Finite (float64_nearest (exp (float64_nearest (- (1 / 2 ^ 60)))))"
    by (simp add: np_exp_of_nonpositive)
  then have c: "inversion_recovery_function_float64 (1 / 2 ^ 60) 1 = Inr (Finite 1)"
    by (simp only: inversion_recovery_function_float64_def one_neq_zero if_False div_by_1
        float64_nearest_tiny float64_exp_rounds_to_1)
  from a b c show ?thesis
    by simp
qed

text \<open>
  Claim C9, amended. For every fixed \<open>t1 > 0\<close>, on float64 numbers:
  \<open>inversion_recovery_function(0, t1)\<close> is 1, the function is non-increasing in the
  delay on the non-negative delays, and at every non-negative delay its value is a
  finite number in the closed interval from 0 to 1.
\<close>

theorem inversion_recovery_function_float64_decay:
  assumes "0 < t1" and "0 \<le> tau" and "tau \<le> tau'"
  shows "inversion_recovery_function_float64 0 t1 = Inr (Finite 1)
         \<and> (\<exists>p p'. inversion_recovery_function_float64 tau t1 = Inr (Finite p)
                    \<and> inversion_recovery_function_float64 tau' t1 = Inr (Finite p')
                    \<and> p' \<le> p \<and> 0 \<le> p \<and> p \<le> 1)"
proof -
  let ?g = "\<lambda>x. if x \<le> - float_overflow_bound then 0
                   else float64_nearest (exp (float64_nearest x))"
  from assms(1) have nz: "t1 \<noteq> 0"
    by simp
  from assms(1,2) have q: "- tau / t1 \<le> 0"
    by (simp add: divide_nonpos_pos)
  from assms(1,3) have qq: "- tau' / t1 \<le> - tau / t1"
    by (simp add: divide_right_mono)
  from q qq have q': "- tau' / t1 \<le> 0"
    by linarith
  from nz q have v: "inversion_recovery_function_float64 tau t1 = Inr (Finite (?g (- tau / t1)))"
    by (simp only: inversion_recovery_function_float64_def np_exp_of_nonpositive if_False)
  from nz q' have v': "inversion_recovery_function_float64 tau' t1 = Inr (Finite (?g (- tau' / t1)))"
    by (simp only: inversion_recovery_function_float64_def np_exp_of_nonpositive if_False)
  have range: "0 \<le> ?g (- tau / t1) \<and> ?g (- tau / t1) \<le> 1"
    using float64_exp_range [OF q] by simp
  have mono: "?g (- tau' / t1) \<le> ?g (- tau / t1)"
  proof (cases "- tau' / t1 \<le> - float_overflow_bound")
    case True
    with range show ?thesis
      by simp
  next
    case False
    with qq have "\<not> - tau / t1 \<le> - float_overflow_bound"
      by linarith
    with False float64_exp_mono [OF qq] show ?thesis
      by simp
  qed
  from nz float_overflow_bound_gt_1
  have zero: "inversion_recovery_function_float64 0 t1 = Inr (Finite 1)"
    by (simp add: inversion_recovery_function_float64_def float64_round_def float64_nearest_1)
  from v v' range mono zero show ?thesis
    by blast
qed

theorem inversion_recovery_function_float64_decay_witness:
  "(0::real) < 1 \<and> (0::real) \<le> 0 \<and> (0::real) \<le> 1000
   \<and> inversion_recovery_function_float64 0 1 = Inr (Finite 1)
   \<and> (\<exists>p p'. inversion_recovery_function_float64 0 1 = Inr (Finite p)
              \<and> inversion_recovery_function_float64 1000 1 = Inr (Finite p')
              \<and> p' \<le> p \<and> 0 \<le> p \<and> p \<le> 1)"
  using inversion_recovery_function_float64_decay [of 1 0 1000]
  by auto

section \<open>The extraction loop: what it leaves alone\<close>

lemma get_qubit_counts_eq:
  assumes "result < length h" and "h ! result = Result r"
  shows "get_qubit_counts sdk h qubit result idx =
           (case qubit_counts sdk r qubit idx of
              Inl e \<Rightarrow> (h, Inl e)
            | Inr m \<Rightarrow> (h @ [Counts m], Inr (length h)))"
  using assms
  by (simp add: get_qubit_counts_def qubit_counts_def alloc_def split: sum.splits)

lemma get_qubit_counts_frame:
  assumes "n \<le> length h"
  shows "take n (fst (get_qubit_counts sdk h qubit result idx)) = take n h
         \<and> length h \<le> length (fst (get_qubit_counts sdk h qubit result idx))"
  using assms
  by (simp add: get_qubit_counts_def alloc_def split: sum.splits pyobj.splits)

lemma array_set_frame:
  assumes "array_set h a i v = Inr h'" and "n \<le> a"
  shows "take n h' = take n h \<and> length h' = length h"
  using assms
  by (auto simp add: array_set_def split: if_splits pyobj.splits)

lemma extract_loop_frame:
  assumes "n \<le> length h" and "n \<le> prob_1s"
  shows "take n (fst (extract_loop sdk g qubit prob_1s es h)) = take n h"
  using assms(1)
proof (induction es arbitrary: h)
  case Nil
  show ?case by simp
next
  case (Cons e es)
  obtain h1 res where gq: "get_qubit_counts sdk h qubit (ir_result g) e = (h1, res)"
    by (cases "get_qubit_counts sdk h qubit (ir_result g) e") auto
  from get_qubit_counts_frame [OF Cons.prems, of sdk qubit "ir_result g" e] gq
  have h1: "take n h1 = take n h" and len1: "length h \<le> length h1"
    by simp_all
  from len1 Cons.prems have n1: "n \<le> length h1"
    by simp
  show ?case
  proof (cases res)
    case (Inl err)
    with gq h1 show ?thesis by simp
  next
    case (Inr counts)
    show ?thesis
    proof (cases "h1 ! counts")
      case (Counts c)
      show ?thesis
      proof (cases "calc_prob1 c")
        case (Inl err)
        with gq Inr Counts h1 show ?thesis by simp
      next
        case prob: (Inr prob_1)
        show ?thesis
        proof (cases "array_set h1 prob_1s e prob_1")
          case (Inl err)
          with gq Inr Counts prob h1 show ?thesis by simp
        next
          case h2: (Inr h2)
          from array_set_frame [OF h2 assms(2)]
          have t2: "take n h2 = take n h1" and l2: "length h2 = length h1"
            by simp_all
          from n1 l2 have "n \<le> length h2"
            by simp
          then have "take n (fst (extract_loop sdk g qubit prob_1s es h2)) = take n h2"
            by (rule Cons.IH)
          with gq Inr Counts prob h2 t2 h1 show ?thesis
            by simp
        qed
      qed
    next
      case (Result r)
      with gq Inr h1 show ?thesis by simp
    next
      case (NdArray ys)
      with gq Inr h1 show ?thesis by simp
    qed
  qed
qed

lemma extract_prob1_data_heap:
  "fst (extract_prob1_data sdk g h result qubit) =
     fst (extract_loop sdk g qubit (length h) [0..<n_exps g] (h @ [NdArray (replicate (n_exps g) 0)]))"
  by (auto simp add: extract_prob1_data_def alloc_def split: prod.splits sum.splits)

lemma extract_frame:
  "take (length h) (fst (extract_prob1_data sdk g h result qubit)) = h
   \<and> take (length h) (fst (get_qubit_counts sdk h qubit result idx)) = h"
proof -
  let ?h0 = "h @ [NdArray (replicate (n_exps g) 0)]"
  have "take (length h) (fst (extract_loop sdk g qubit (length h) [0..<n_exps g] ?h0)) = take (length h) ?h0"
    by (rule extract_loop_frame) simp_all
  then have "take (length h) (fst (extract_prob1_data sdk g h result qubit)) = h"
    by (simp add: extract_prob1_data_heap)
  moreover have "take (length h) (fst (get_qubit_counts sdk h qubit result idx)) = h"
    using get_qubit_counts_frame [of "length h" h sdk qubit result idx] by simp
  ultimately show ?thesis
    by simp
qed

section \<open>The extraction loop: what it computes and when it raises\<close>

lemma calc_prob1_outcome:
  "calc_prob1 m = Inr p \<Longrightarrow> p = outcome_probability m ''1''"
  using calc_prob1_returns [of m p] by (simp add: outcome_probability_def)

lemma extract_loop_step:
  assumes "ir_result g < length h" and "h ! ir_result g = Result r"
    and "prob_1s < length h" and "h ! prob_1s = NdArray xs" and "e < length xs"
    and "qubit_counts sdk r qubit e = Inr m"
    and "calc_prob1 m = Inr p"
  shows "extract_loop sdk g qubit prob_1s (e # es) h =
           extract_loop sdk g qubit prob_1s es
             ((h @ [Counts m])[prob_1s := NdArray (xs[e := p])])"
proof -
  from assms(1,2,6)
  have gq: "get_qubit_counts sdk h qubit (ir_result g) e = (h @ [Counts m], Inr (length h))"
    by (simp add: get_qubit_counts_eq)
  from assms(3,4,5) have
    "array_set (h @ [Counts m]) prob_1s e p =
       Inr ((h @ [Counts m])[prob_1s := NdArray (xs[e := p])])"
    by (simp add: array_set_def nth_append)
  with gq assms(7) show ?thesis
    by simp
qed

lemma extract_loop_stops_at_sdk_error:
  assumes "ir_result g < length h" and "h ! ir_result g = Result r"
    and "qubit_counts sdk r qubit e = Inl err"
  shows "extract_loop sdk g qubit prob_1s (e # es) h = (h, Inl err)"
  using assms by (simp add: get_qubit_counts_eq)

lemma extract_loop_stops_at_calc_error:
  assumes "ir_result g < length h" and "h ! ir_result g = Result r"
    and "qubit_counts sdk r qubit e = Inr m"
    and "calc_prob1 m = Inl err"
  shows "extract_loop sdk g qubit prob_1s (e # es) h = (h @ [Counts m], Inl err)"
  using assms by (simp add: get_qubit_counts_eq)

lemma extract_loop_stops:
  assumes "ir_result g < length h" and "h ! ir_result g = Result r"
    and "experiment_prob1 sdk r qubit e = Inl err"
  shows "snd (extract_loop sdk g qubit prob_1s (e # es) h) = Inl err"
proof (cases "qubit_counts sdk r qubit e")
  case (Inl err')
  with assms(3) have "qubit_counts sdk r qubit e = Inl err"
    by (simp add: experiment_prob1_def)
  with assms(1,2) have "extract_loop sdk g qubit prob_1s (e # es) h = (h, Inl err)"
    by (rule extract_loop_stops_at_sdk_error)
  then show ?thesis
    by (simp only: snd_conv)
next
  case (Inr m)
  with assms(3) have "calc_prob1 m = Inl err"
    by (simp add: experiment_prob1_def)
  with assms(1,2) Inr
  have "extract_loop sdk g qubit prob_1s (e # es) h = (h @ [Counts m], Inl err)"
    by (rule extract_loop_stops_at_calc_error)
  then show ?thesis
    by (simp only: snd_conv)
qed

lemma extract_loop_continues:
  assumes "ir_result g < length h" and "h ! ir_result g = Result r"
    and "prob_1s < length h" and "h ! prob_1s = NdArray xs" and "e < length xs"
    and "experiment_prob1 sdk r qubit e = Inr p"
  shows "\<exists>h2. extract_loop sdk g qubit prob_1s (e # es) h = extract_loop sdk g qubit prob_1s es h2
           \<and> ir_result g < length h2 \<and> h2 ! ir_result g = Result r
           \<and> prob_1s < length h2 \<and> h2 ! prob_1s = NdArray (xs[e := p])"
proof -
  from assms(6) obtain m where m: "qubit_counts sdk r qubit e = Inr m" and cp: "calc_prob1 m = Inr p"
    by (auto simp add: experiment_prob1_def split: sum.splits)
  let ?h2 = "(h @ [Counts m])[prob_1s := NdArray (xs[e := p])]"
  from assms(1-5) m cp
  have step: "extract_loop sdk g qubit prob_1s (e # es) h = extract_loop sdk g qubit prob_1s es ?h2"
    by (rule extract_loop_step)
  from assms(2,4) have ne: "prob_1s \<noteq> ir_result g"
    by auto
  from assms(1) have a1: "ir_result g < length ?h2"
    by simp
  from assms(1,2) ne have a2: "?h2 ! ir_result g = Result r"
    by (simp add: nth_append)
  from assms(3) have a3: "prob_1s < length ?h2"
    by simp
  from assms(3) have a4: "?h2 ! prob_1s = NdArray (xs[e := p])"
    by simp
  from step a1 a2 a3 a4 show ?thesis
    by blast
qed

lemma extract_loop_values:
  assumes "ir_result g < length h" and "h ! ir_result g = Result r"
    and "prob_1s < length h" and "h ! prob_1s = NdArray xs"
    and "\<forall>e \<in> set es. e < length xs"
    and "extract_loop sdk g qubit prob_1s es h = (h', Inr u)"
  shows "\<exists>ys. h' ! prob_1s = NdArray ys \<and> length ys = length xs
           \<and> (\<forall>e \<in> set es. experiment_prob1 sdk r qubit e = Inr (ys ! e))
           \<and> (\<forall>k. k \<notin> set es \<longrightarrow> ys ! k = xs ! k)"
  using assms
proof (induction es arbitrary: h xs)
  case Nil
  then show ?case by simp
next
  case (Cons e es)
  from Cons.prems(5) have e_in: "e < length xs" and rest_in: "\<forall>k \<in> set es. k < length xs"
    by simp_all
  show ?case
  proof (cases "experiment_prob1 sdk r qubit e")
    case (Inl err)
    with Cons.prems(1,2) have "snd (extract_loop sdk g qubit prob_1s (e # es) h) = Inl err"
      by (rule extract_loop_stops)
    with Cons.prems(6) show ?thesis by simp
  next
    case (Inr p)
    from extract_loop_continues [OF Cons.prems(1,2,3,4) e_in Inr, of es]
    obtain h2 where step: "extract_loop sdk g qubit prob_1s (e # es) h = extract_loop sdk g qubit prob_1s es h2"
      and a1: "ir_result g < length h2" and a2: "h2 ! ir_result g = Result r"
      and a3: "prob_1s < length h2" and a4: "h2 ! prob_1s = NdArray (xs[e := p])"
      by blast
    from step Cons.prems(6) have run: "extract_loop sdk g qubit prob_1s es h2 = (h', Inr u)"
      by simp
    from rest_in have a5: "\<forall>k \<in> set es. k < length (xs[e := p])"
      by simp
    from Cons.IH [OF a1 a2 a3 a4 a5 run]
    obtain ys where ys: "h' ! prob_1s = NdArray ys" "length ys = length xs"
      and vals: "\<forall>k \<in> set es. experiment_prob1 sdk r qubit k = Inr (ys ! k)"
      and keep: "\<forall>k. k \<notin> set es \<longrightarrow> ys ! k = (xs[e := p]) ! k"
      by auto
    have here: "experiment_prob1 sdk r qubit e = Inr (ys ! e)"
    proof (cases "e \<in> set es")
      case True
      with vals show ?thesis by blast
    next
      case False
      with keep e_in have "ys ! e = p"
        by simp
      with Inr show ?thesis
        by simp
    qed
    from keep have keep': "\<forall>k. k \<notin> set (e # es) \<longrightarrow> ys ! k = xs ! k"
      by auto
    from ys vals here keep' show ?thesis
      by auto
  qed
qed

lemma extract_loop_raises:
  assumes "ir_result g < length h" and "h ! ir_result g = Result r"
    and "prob_1s < length h" and "h ! prob_1s = NdArray xs"
    and "\<forall>k \<in> set pre. k < length xs \<and> (\<exists>p. experiment_prob1 sdk r qubit k = Inr p)"
    and "experiment_prob1 sdk r qubit e = Inl err"
  shows "snd (extract_loop sdk g qubit prob_1s (pre @ e # post) h) = Inl err"
  using assms(1-5)
proof (induction pre arbitrary: h xs)
  case Nil
  from Nil.prems(1,2) assms(6)
  have "snd (extract_loop sdk g qubit prob_1s (e # post) h) = Inl err"
    by (rule extract_loop_stops)
  then show ?case
    by (simp only: append_Nil)
next
  case (Cons k pre)
  from Cons.prems(5) obtain p where k_in: "k < length xs"
    and p: "experiment_prob1 sdk r qubit k = Inr p"
    by auto
  from extract_loop_continues [OF Cons.prems(1,2,3,4) k_in p, of "pre @ e # post"]
  obtain h2 where step: "extract_loop sdk g qubit prob_1s (k # pre @ e # post) h
        = extract_loop sdk g qubit prob_1s (pre @ e # post) h2"
    and a1: "ir_result g < length h2" and a2: "h2 ! ir_result g = Result r"
    and a3: "prob_1s < length h2" and a4: "h2 ! prob_1s = NdArray (xs[k := p])"
    by blast
  from Cons.prems(5)
  have a5: "\<forall>j \<in> set pre. j < length (xs[k := p]) \<and> (\<exists>p. experiment_prob1 sdk r qubit j = Inr p)"
    by simp
  from Cons.IH [OF a1 a2 a3 a4 a5] step show ?case
    by simp
qed

lemma extract_prob1_data_result:
  "snd (extract_prob1_data sdk g h result qubit) =
     (case snd (extract_loop sdk g qubit (length h) [0..<n_exps g]
                  (h @ [NdArray (replicate (n_exps g) 0)])) of
        Inl err \<Rightarrow> Inl err
      | Inr u \<Rightarrow> Inr (length h))"
  by (auto simp add: extract_prob1_data_def alloc_def split: prod.splits sum.splits)

lemma extract_prob1_data_returns:
  assumes "extract_prob1_data sdk g h result qubit = (h', Inr a)"
  shows "a = length h \<and>
         extract_loop sdk g qubit (length h) [0..<n_exps g]
           (h @ [NdArray (replicate (n_exps g) 0)]) = (h', Inr ())"
  using assms
  by (auto simp add: extract_prob1_data_def alloc_def split: prod.splits sum.splits)

text \<open>
  A run on one experiment with one shot of outcome 0 and three shots of outcome 1: the
  store afterwards holds the result object, the array with the entry 3/4, and the
  dictionary of the experiment.
\<close>

lemma extract_prob1_data_example:
  "extract_prob1_data one_qubit_sdk \<lparr>n_exps = 1, ir_result = 0\<rparr>
     [Result [[''0'' \<mapsto> 1, ''1'' \<mapsto> 3]]] 0 \<lparr>index = 0\<rparr>
   = ([Result [[''0'' \<mapsto> 1, ''1'' \<mapsto> 3]], NdArray [3 / 4], Counts [''0'' \<mapsto> 1, ''1'' \<mapsto> 3]],
      Inr 1)"
  by (simp add: extract_prob1_data_def alloc_def get_qubit_counts_def one_qubit_sdk_def
      calc_prob1_def dict_get_def array_set_def float_overflow_bound_def)

section \<open>The data the fit is given\<close>

text \<open>
  Claim C1, as stated, says that the array \<open>extract_prob1_data\<close> builds holds the
  probability of outcome 0 of each experiment. It does not: for an experiment with one
  shot of outcome 0 and three shots of outcome 1 the entry is 3/4, and the probability
  of outcome 0 is 1/4.
\<close>

theorem prob1_data_is_not_probability_of_outcome_0:
  "snd (extract_prob1_data one_qubit_sdk \<lparr>n_exps = 1, ir_result = 0\<rparr>
          [Result [[''0'' \<mapsto> 1, ''1'' \<mapsto> 3]]] 0 \<lparr>index = 0\<rparr>) = Inr 1
   \<and> array_at (fst (extract_prob1_data one_qubit_sdk \<lparr>n_exps = 1, ir_result = 0\<rparr>
          [Result [[''0'' \<mapsto> 1, ''1'' \<mapsto> 3]]] 0 \<lparr>index = 0\<rparr>)) 1 = [3 / 4]
   \<and> outcome_probability [''0'' \<mapsto> 1, ''1'' \<mapsto> 3] ''0'' = 1 / 4
   \<and> array_at (fst (extract_prob1_data one_qubit_sdk \<lparr>n_exps = 1, ir_result = 0\<rparr>
          [Result [[''0'' \<mapsto> 1, ''1'' \<mapsto> 3]]] 0 \<lparr>index = 0\<rparr>)) 1 ! 0
       \<noteq> outcome_probability [''0'' \<mapsto> 1, ''1'' \<mapsto> 3] ''0''"
  using extract_prob1_data_example
  by (simp add: array_at_def outcome_probability_def dict_get_def)

text \<open>
  Claim C1, amended. For every delay \<open>tau\<close> and every decay constant \<open>t1\<close> other than
  0, \<open>inversion_recovery_function tau t1\<close> returns \<open>e^(-tau/t1)\<close>. When
  \<open>extract_prob1_data\<close> returns, the array it returns has \<open>n_exps\<close> entries, and the
  entry of experiment \<open>i\<close> is what \<open>calc_prob1\<close> gives for the marginal counts of that
  experiment: the probability of outcome 1, the count of \<open>'1'\<close> over the sum of the
  counts of \<open>'0'\<close> and \<open>'1'\<close>.
\<close>

theorem prob1_data_is_probability_of_outcome_1:
  assumes "ir_result g < length h" and "h ! ir_result g = Result r"
    and "extract_prob1_data sdk g h result qubit = (h', Inr a)"
    and "i < n_exps g" and "t1 \<noteq> 0"
  shows "inversion_recovery_function tau t1 = Inr (exp (- tau / t1))
         \<and> length (array_at h' a) = n_exps g
         \<and> (\<exists>m. qubit_counts sdk r qubit i = Inr m
                \<and> calc_prob1 m = Inr (array_at h' a ! i)
                \<and> array_at h' a ! i = outcome_probability m ''1'')"
proof -
  let ?h0 = "h @ [NdArray (replicate (n_exps g) 0)]"
  from assms(3) have a: "a = length h"
    and run: "extract_loop sdk g qubit (length h) [0..<n_exps g] ?h0 = (h', Inr ())"
    using extract_prob1_data_returns by blast+
  from assms(1) have a1: "ir_result g < length ?h0"
    by simp
  from assms(1,2) have a2: "?h0 ! ir_result g = Result r"
    by (simp add: nth_append)
  have a3: "length h < length ?h0"
    by simp
  have a4: "?h0 ! length h = NdArray (replicate (n_exps g) 0)"
    by simp
  have a5: "\<forall>e \<in> set [0..<n_exps g]. e < length (replicate (n_exps g) (0::real))"
    by simp
  from extract_loop_values [OF a1 a2 a3 a4 a5 run]
  obtain ys where ys: "h' ! length h = NdArray ys" "length ys = n_exps g"
    and vals: "\<forall>e \<in> set [0..<n_exps g]. experiment_prob1 sdk r qubit e = Inr (ys ! e)"
    by auto
  from assms(4) have "i \<in> set [0..<n_exps g]"
    by simp
  with vals have "experiment_prob1 sdk r qubit i = Inr (ys ! i)"
    by blast
  then obtain m where m: "qubit_counts sdk r qubit i = Inr m" "calc_prob1 m = Inr (ys ! i)"
    by (auto simp add: experiment_prob1_def split: sum.splits)
  from m(2) have "ys ! i = outcome_probability m ''1''"
    by (rule calc_prob1_outcome)
  with m ys a have "\<exists>m. qubit_counts sdk r qubit i = Inr m
                \<and> calc_prob1 m = Inr (array_at h' a ! i)
                \<and> array_at h' a ! i = outcome_probability m ''1''"
    by (simp add: array_at_def)
  moreover from ys a have "length (array_at h' a) = n_exps g"
    by (simp add: array_at_def)
  moreover from assms(5) have "inversion_recovery_function tau t1 = Inr (exp (- tau / t1))"
    by (simp add: inversion_recovery_function_def)
  ultimately show ?thesis
    by simp
qed

theorem prob1_data_is_probability_of_outcome_1_witness:
  "(100::real) \<noteq> 0
   \<and> inversion_recovery_function 50 100 = Inr (exp (- 50 / 100))
   \<and> length (array_at [Result [[''0'' \<mapsto> 1, ''1'' \<mapsto> 3]], NdArray [3 / 4],
                       Counts [''0'' \<mapsto> 1, ''1'' \<mapsto> 3]] 1) = 1
   \<and> (\<exists>m. qubit_counts one_qubit_sdk [[''0'' \<mapsto> 1, ''1'' \<mapsto> 3]] \<lparr>index = 0\<rparr> 0 = Inr m
          \<and> calc_prob1 m = Inr (3 / 4)
          \<and> 3 / 4 = outcome_probability m ''1'')"
  using prob1_data_is_probability_of_outcome_1
      [of "\<lparr>n_exps = 1, ir_result = 0\<rparr>" "[Result [[''0'' \<mapsto> 1, ''1'' \<mapsto> 3]]]"
        "[[''0'' \<mapsto> 1, ''1'' \<mapsto> 3]]" one_qubit_sdk 0 "\<lparr>index = 0\<rparr>"
        "[Result [[''0'' \<mapsto> 1, ''1'' \<mapsto> 3]], NdArray [3 / 4], Counts [''0'' \<mapsto> 1, ''1'' \<mapsto> 3]]"
        1 0 100 50]
    extract_prob1_data_example
  by (simp add: array_at_def)

section \<open>Exceptions are not caught\<close>

lemma get_qubit_counts_raises:
  assumes "result < length h" and "h ! result = Result r"
  shows "get_counts sdk r idx = Inl err \<Longrightarrow>
           get_qubit_counts sdk h qubit result idx = (h, Inl err)"
    and "get_counts sdk r idx = Inr full \<Longrightarrow> marginal_counts sdk full [index qubit] = Inl err \<Longrightarrow>
           get_qubit_counts sdk h qubit result idx = (h, Inl err)"
  using assms by (simp_all add: get_qubit_counts_def)

lemma extract_loop_turn_raises:
  shows "get_qubit_counts sdk h qubit (ir_result g) e = (h1, Inl err) \<Longrightarrow>
           extract_loop sdk g qubit prob_1s (e # es) h = (h1, Inl err)"
    and "get_qubit_counts sdk h qubit (ir_result g) e = (h1, Inr a) \<Longrightarrow> h1 ! a = Counts m \<Longrightarrow>
           calc_prob1 m = Inl err \<Longrightarrow>
           extract_loop sdk g qubit prob_1s (e # es) h = (h1, Inl err)"
    and "get_qubit_counts sdk h qubit (ir_result g) e = (h1, Inr a) \<Longrightarrow> h1 ! a = Counts m \<Longrightarrow>
           calc_prob1 m = Inr p \<Longrightarrow> array_set h1 prob_1s e p = Inl err \<Longrightarrow>
           extract_loop sdk g qubit prob_1s (e # es) h = (h1, Inl err)"
  by simp_all

lemma extract_prob1_data_raises:
  assumes "ir_result g < length h" and "h ! ir_result g = Result r"
    and "i < n_exps g"
    and "\<forall>k<i. \<exists>p. experiment_prob1 sdk r qubit k = Inr p"
    and "experiment_prob1 sdk r qubit i = Inl err"
  shows "snd (extract_prob1_data sdk g h result qubit) = Inl err"
proof -
  let ?h0 = "h @ [NdArray (replicate (n_exps g) 0)]"
  from assms(3) have "[0..<n_exps g] = [0..<i] @ [i..<n_exps g]"
    using upt_add_eq_append [of 0 i "n_exps g - i"] by simp
  with assms(3) have split: "[0..<n_exps g] = [0..<i] @ i # [Suc i..<n_exps g]"
    by (simp add: upt_conv_Cons)
  from assms(1) have a1: "ir_result g < length ?h0"
    by simp
  from assms(1,2) have a2: "?h0 ! ir_result g = Result r"
    by (simp add: nth_append)
  have a3: "length h < length ?h0"
    by simp
  have a4: "?h0 ! length h = NdArray (replicate (n_exps g) 0)"
    by simp
  from assms(3,4) have a5: "\<forall>k \<in> set [0..<i]. k < length (replicate (n_exps g) (0::real))
       \<and> (\<exists>p. experiment_prob1 sdk r qubit k = Inr p)"
    by simp
  from extract_loop_raises [OF a1 a2 a3 a4 a5 assms(5), of "[Suc i..<n_exps g]"] split
  have "snd (extract_loop sdk g qubit (length h) [0..<n_exps g] ?h0) = Inl err"
    by simp
  then show ?thesis
    by (simp add: extract_prob1_data_result)
qed

lemma extract_prob1_data_no_failure_lost:
  assumes "ir_result g < length h" and "h ! ir_result g = Result r"
    and "snd (extract_prob1_data sdk g h result qubit) = Inr a"
    and "k < n_exps g"
  shows "\<exists>p. experiment_prob1 sdk r qubit k = Inr p"
proof -
  let ?h0 = "h @ [NdArray (replicate (n_exps g) 0)]"
  obtain h' where "extract_prob1_data sdk g h result qubit = (h', Inr a)"
    using assms(3) by (cases "extract_prob1_data sdk g h result qubit") simp
  then have run: "extract_loop sdk g qubit (length h) [0..<n_exps g] ?h0 = (h', Inr ())"
    using extract_prob1_data_returns by blast
  from assms(1) have a1: "ir_result g < length ?h0"
    by simp
  from assms(1,2) have a2: "?h0 ! ir_result g = Result r"
    by (simp add: nth_append)
  have a3: "length h < length ?h0"
    by simp
  have a4: "?h0 ! length h = NdArray (replicate (n_exps g) 0)"
    by simp
  have a5: "\<forall>e \<in> set [0..<n_exps g]. e < length (replicate (n_exps g) (0::real))"
    by simp
  from extract_loop_values [OF a1 a2 a3 a4 a5 run]
  obtain ys where "\<forall>e \<in> set [0..<n_exps g]. experiment_prob1 sdk r qubit e = Inr (ys ! e)"
    by auto
  moreover from assms(4) have "k \<in> set [0..<n_exps g]"
    by simp
  ultimately show ?thesis
    by blast
qed

lemma fit_t1_raises:
  shows "fit_function delays prob1_data inversion_recovery_function [100] = Inl err \<Longrightarrow>
           snd (fit_t1 fit_function delays prob1_data) = Inl err"
    and "fit_function delays prob1_data inversion_recovery_function [100] = Inr ([], y_fit) \<Longrightarrow>
           snd (fit_t1 fit_function delays prob1_data) = Inl IndexError"
  by (simp_all add: fit_t1_def)

lemma calc_prob1_errors:
  shows "calc_prob1 c = Inl ZeroDivisionError \<longleftrightarrow> dict_get c ''0'' 0 + dict_get c ''1'' 0 = 0"
    and "calc_prob1 c = Inl err \<Longrightarrow> err = ZeroDivisionError \<or> err = OverflowError"
  by (auto simp add: calc_prob1_def Let_def split: if_splits)

lemma calc_prob1_errors_nonneg:
  assumes "0 \<le> dict_get c ''0'' 0" and "0 \<le> dict_get c ''1'' 0"
  shows "calc_prob1 c = Inl ZeroDivisionError \<longleftrightarrow>
           \<not> 0 < dict_get c ''0'' 0 \<and> \<not> 0 < dict_get c ''1'' 0"
    and "calc_prob1 c = Inl err \<Longrightarrow> err = ZeroDivisionError"
proof -
  have "calc_prob1 c = Inl ZeroDivisionError \<longleftrightarrow> dict_get c ''0'' 0 + dict_get c ''1'' 0 = 0"
    by (rule calc_prob1_errors)
  with assms show "calc_prob1 c = Inl ZeroDivisionError \<longleftrightarrow>
           \<not> 0 < dict_get c ''0'' 0 \<and> \<not> 0 < dict_get c ''1'' 0"
    by linarith
next
  assume raised: "calc_prob1 c = Inl err"
  show "err = ZeroDivisionError"
  proof (cases "dict_get c ''0'' 0 + dict_get c ''1'' 0 = 0")
    case True
    then have "calc_prob1 c = Inl ZeroDivisionError"
      by (rule calc_prob1_raises)
    with raised show ?thesis by simp
  next
    case False
    with assms have pos: "0 < dict_get c ''0'' 0 + dict_get c ''1'' 0"
      by simp
    from assms pos obtain p where "calc_prob1 c = Inr p"
      using calc_prob1_ratio_bounds [of c] by blast
    with raised show ?thesis by simp
  qed
qed

text \<open>
  Claim C5. No branch of the embedded functions handles an exception: each function
  ends with the exception of the call that raised it. For \<open>calc_prob1\<close>: it raises
  \<open>ZeroDivisionError\<close> exactly when the counts of \<open>'0'\<close> and \<open>'1'\<close> add up to 0, which
  for non-negative counts is the case where neither key has a positive count, and
  for non-negative counts it raises nothing else. For \<open>get_qubit_counts\<close>: an exception
  of \<open>get_counts\<close> or of \<open>marginal_counts\<close> is its own. For one turn of the loop of
  \<open>extract_prob1_data\<close>: an exception of \<open>get_qubit_counts\<close>, of \<open>calc_prob1\<close> or of the
  assignment to the array ends the loop with that exception. For
  \<open>extract_prob1_data\<close>: it ends with the exception of the first experiment that
  raises one, in particular with the \<open>ZeroDivisionError\<close> of the first experiment whose
  marginal counts add up to 0, and it returns only when no experiment has raised. For
  \<open>fit_t1\<close>: an exception of \<open>fit_function\<close> is its own, and so is the \<open>IndexError\<close> of
  \<open>fit_params[0]\<close>.
\<close>

theorem failures_propagate_uncaught:
  "(calc_prob1 c = Inl ZeroDivisionError \<longleftrightarrow> dict_get c ''0'' 0 + dict_get c ''1'' 0 = 0)
   \<and> (0 \<le> dict_get c ''0'' 0 \<and> 0 \<le> dict_get c ''1'' 0 \<longrightarrow>
        (calc_prob1 c = Inl ZeroDivisionError \<longleftrightarrow>
           \<not> 0 < dict_get c ''0'' 0 \<and> \<not> 0 < dict_get c ''1'' 0))
   \<and> (0 \<le> dict_get c ''0'' 0 \<and> 0 \<le> dict_get c ''1'' 0 \<and> calc_prob1 c = Inl err \<longrightarrow>
        err = ZeroDivisionError)
   \<and> (result < length h \<and> h ! result = Result r \<and> get_counts sdk r idx = Inl err \<longrightarrow>
        get_qubit_counts sdk h qubit result idx = (h, Inl err))
   \<and> (result < length h \<and> h ! result = Result r \<and> get_counts sdk r idx = Inr full
        \<and> marginal_counts sdk full [index qubit] = Inl err \<longrightarrow>
        get_qubit_counts sdk h qubit result idx = (h, Inl err))
   \<and> (get_qubit_counts sdk h qubit (ir_result g) e = (h1, Inl err) \<longrightarrow>
        extract_loop sdk g qubit prob_1s (e # es) h = (h1, Inl err))
   \<and> (get_qubit_counts sdk h qubit (ir_result g) e = (h1, Inr a) \<and> h1 ! a = Counts m
        \<and> calc_prob1 m = Inl err \<longrightarrow>
        extract_loop sdk g qubit prob_1s (e # es) h = (h1, Inl err))
   \<and> (get_qubit_counts sdk h qubit (ir_result g) e = (h1, Inr a) \<and> h1 ! a = Counts m
        \<and> calc_prob1 m = Inr p \<and> array_set h1 prob_1s e p = Inl err \<longrightarrow>
        extract_loop sdk g qubit prob_1s (e # es) h = (h1, Inl err))
   \<and> (ir_result g < length h \<and> h ! ir_result g = Result r \<and> i < n_exps g
        \<and> (\<forall>k<i. \<exists>p. experiment_prob1 sdk r qubit k = Inr p)
        \<and> experiment_prob1 sdk r qubit i = Inl err \<longrightarrow>
        snd (extract_prob1_data sdk g h result qubit) = Inl err)
   \<and> (ir_result g < length h \<and> h ! ir_result g = Result r \<and> i < n_exps g
        \<and> (\<forall>k<i. \<exists>p. experiment_prob1 sdk r qubit k = Inr p)
        \<and> qubit_counts sdk r qubit i = Inr m
        \<and> dict_get m ''0'' 0 + dict_get m ''1'' 0 = 0 \<longrightarrow>
        snd (extract_prob1_data sdk g h result qubit) = Inl ZeroDivisionError)
   \<and> (ir_result g < length h \<and> h ! ir_result g = Result r
        \<and> snd (extract_prob1_data sdk g h result qubit) = Inr a \<and> i < n_exps g \<longrightarrow>
        (\<exists>p. experiment_prob1 sdk r qubit i = Inr p))
   \<and> (fit_function delays prob1_data inversion_recovery_function [100] = Inl err \<longrightarrow>
        snd (fit_t1 fit_function delays prob1_data) = Inl err)
   \<and> (fit_function delays prob1_data inversion_recovery_function [100] = Inr ([], y_fit) \<longrightarrow>
        snd (fit_t1 fit_function delays prob1_data) = Inl IndexError)"
proof -
  have zero: "ir_result g < length h \<and> h ! ir_result g = Result r \<and> i < n_exps g
        \<and> (\<forall>k<i. \<exists>p. experiment_prob1 sdk r qubit k = Inr p)
        \<and> qubit_counts sdk r qubit i = Inr m
        \<and> dict_get m ''0'' 0 + dict_get m ''1'' 0 = 0 \<longrightarrow>
        snd (extract_prob1_data sdk g h result qubit) = Inl ZeroDivisionError"
  proof (intro impI, elim conjE)
    assume a: "ir_result g < length h" "h ! ir_result g = Result r" "i < n_exps g"
      "\<forall>k<i. \<exists>p. experiment_prob1 sdk r qubit k = Inr p"
      and m: "qubit_counts sdk r qubit i = Inr m"
      and z: "dict_get m ''0'' 0 + dict_get m ''1'' 0 = 0"
    from z have "calc_prob1 m = Inl ZeroDivisionError"
      by (rule calc_prob1_raises)
    with m have "experiment_prob1 sdk r qubit i = Inl ZeroDivisionError"
      by (simp add: experiment_prob1_def)
    with a show "snd (extract_prob1_data sdk g h result qubit) = Inl ZeroDivisionError"
      by (rule extract_prob1_data_raises)
  qed
  show ?thesis
    apply (intro conjI)
    subgoal by (rule calc_prob1_errors)
    subgoal using calc_prob1_errors_nonneg(1) [of c] by blast
    subgoal using calc_prob1_errors_nonneg(2) [of c err] by blast
    subgoal using get_qubit_counts_raises(1) [of result h r sdk idx err qubit] by blast
    subgoal using get_qubit_counts_raises(2) [of result h r sdk idx full qubit err] by blast
    subgoal using extract_loop_turn_raises(1) [of sdk h qubit g e h1 err prob_1s es] by blast
    subgoal using extract_loop_turn_raises(2) [of sdk h qubit g e h1 a m err prob_1s es] by blast
    subgoal using extract_loop_turn_raises(3) [of sdk h qubit g e h1 a m p prob_1s err es] by blast
    subgoal using extract_prob1_data_raises [of g h r i sdk qubit err result] by blast
    subgoal by (rule zero)
    subgoal using extract_prob1_data_no_failure_lost [of g h r sdk result qubit a i] by blast
    subgoal using fit_t1_raises(1) [of fit_function delays prob1_data err] by blast
    subgoal using fit_t1_raises(2) [of fit_function delays prob1_data y_fit] by blast
    done
qed


theorem failures_propagate_uncaught_witness:
  "calc_prob1 [''0'' \<mapsto> 0] = Inl ZeroDivisionError
   \<and> snd (extract_prob1_data one_qubit_sdk \<lparr>n_exps = 3, ir_result = 0\<rparr>
          [Result [[''0'' \<mapsto> 1, ''1'' \<mapsto> 3], [''0'' \<mapsto> 0], [''1'' \<mapsto> 4]]] 0 \<lparr>index = 0\<rparr>)
       = Inl ZeroDivisionError
   \<and> snd (extract_prob1_data one_qubit_sdk \<lparr>n_exps = 2, ir_result = 0\<rparr>
          [Result [[''0'' \<mapsto> 1, ''1'' \<mapsto> 3]]] 0 \<lparr>index = 0\<rparr>)
       = Inl (SdkError ''no such experiment'')
   \<and> snd (fit_t1 (\<lambda>x y f init. Inl (SdkError ''no fit'')) [0, 50] [1, 3 / 5])
       = Inl (SdkError ''no fit'')"
proof -
  have w1: "calc_prob1 [''0'' \<mapsto> 0] = Inl ZeroDivisionError"
    using failures_propagate_uncaught [where c = "[''0'' \<mapsto> 0]", THEN conjunct1]
    by (simp add: dict_get_def)
  have w2: "snd (extract_prob1_data one_qubit_sdk \<lparr>n_exps = 3, ir_result = 0\<rparr>
          [Result [[''0'' \<mapsto> 1, ''1'' \<mapsto> 3], [''0'' \<mapsto> 0], [''1'' \<mapsto> 4]]] 0 \<lparr>index = 0\<rparr>)
       = Inl ZeroDivisionError"
    by (rule failures_propagate_uncaught
          [where r = "[[''0'' \<mapsto> 1, ''1'' \<mapsto> 3], [''0'' \<mapsto> 0], [''1'' \<mapsto> 4]]"
            and i = 1 and m = "[''0'' \<mapsto> 0]", THEN conjunct2, THEN conjunct2, THEN conjunct2, THEN conjunct2, THEN conjunct2, THEN conjunct2, THEN conjunct2, THEN conjunct2, THEN conjunct2, THEN conjunct1, THEN mp])
      (auto simp add: experiment_prob1_def qubit_counts_def one_qubit_sdk_def dict_get_def
        calc_prob1_def float_overflow_bound_def intro: exI [of _ "3 / 4"])
  have w3: "snd (extract_prob1_data one_qubit_sdk \<lparr>n_exps = 2, ir_result = 0\<rparr>
          [Result [[''0'' \<mapsto> 1, ''1'' \<mapsto> 3]]] 0 \<lparr>index = 0\<rparr>)
       = Inl (SdkError ''no such experiment'')"
    by (rule failures_propagate_uncaught
          [where r = "[[''0'' \<mapsto> 1, ''1'' \<mapsto> 3]]" and i = 1, THEN conjunct2, THEN conjunct2, THEN conjunct2, THEN conjunct2, THEN conjunct2, THEN conjunct2, THEN conjunct2, THEN conjunct2, THEN conjunct1, THEN mp])
      (auto simp add: experiment_prob1_def qubit_counts_def one_qubit_sdk_def dict_get_def
        calc_prob1_def float_overflow_bound_def intro: exI [of _ "3 / 4"])
  have w4: "snd (fit_t1 (\<lambda>x y f init. Inl (SdkError ''no fit'')) [0, 50] [1, 3 / 5])
       = Inl (SdkError ''no fit'')"
    by (rule failures_propagate_uncaught [THEN conjunct2, THEN conjunct2, THEN conjunct2, THEN conjunct2, THEN conjunct2, THEN conjunct2, THEN conjunct2, THEN conjunct2, THEN conjunct2, THEN conjunct2, THEN conjunct2, THEN conjunct1, THEN mp]) simp
  from w1 w2 w3 w4 show ?thesis
    by (intro conjI)
qed

section \<open>The counts and the result object are only read\<close>

text \<open>
  Claim C7. The operations on counts are read-only on what they are given.
  \<open>calc_prob1\<close> reads its dictionary through \<open>get\<close> and is a function of its value.
  \<open>get_qubit_counts\<close> and \<open>extract_prob1_data\<close> run on the store, and whether they
  return or raise, the store they started from is an initial segment of the store they
  end with: every object that existed before the call, each counts dictionary and each
  result object among them, is the same afterwards (the only write of the loop goes to
  the array the function has allocated itself). So a dictionary of non-negative counts
  keyed by bitstrings is still that dictionary after the extraction.
\<close>

theorem extraction_leaves_existing_objects_unchanged:
  assumes "a < length h"
  shows "take (length h) (fst (extract_prob1_data sdk g h result qubit)) = h
         \<and> take (length h) (fst (get_qubit_counts sdk h qubit result idx)) = h
         \<and> fst (extract_prob1_data sdk g h result qubit) ! a = h ! a
         \<and> fst (get_qubit_counts sdk h qubit result idx) ! a = h ! a"
proof -
  have t: "take (length h) (fst (extract_prob1_data sdk g h result qubit)) = h
         \<and> take (length h) (fst (get_qubit_counts sdk h qubit result idx)) = h"
    by (rule extract_frame)
  from assms have "take (length h) (fst (extract_prob1_data sdk g h result qubit)) ! a
      = fst (extract_prob1_data sdk g h result qubit) ! a"
    by simp
  moreover from assms have "take (length h) (fst (get_qubit_counts sdk h qubit result idx)) ! a
      = fst (get_qubit_counts sdk h qubit result idx) ! a"
    by simp
  ultimately show ?thesis
    using t by simp
qed

theorem extraction_leaves_existing_objects_unchanged_witness:
  "(1::nat) < length [Result [[''0'' \<mapsto> 1, ''1'' \<mapsto> (3::int)]], Counts [''00'' \<mapsto> 7]]
   \<and> fst (extract_prob1_data one_qubit_sdk \<lparr>n_exps = 1, ir_result = 0\<rparr>
          [Result [[''0'' \<mapsto> 1, ''1'' \<mapsto> 3]], Counts [''00'' \<mapsto> 7]] 0 \<lparr>index = 0\<rparr>) ! 1
       = Counts [''00'' \<mapsto> 7]
   \<and> fst (get_qubit_counts one_qubit_sdk
          [Result [[''0'' \<mapsto> 1, ''1'' \<mapsto> 3]], Counts [''00'' \<mapsto> 7]] \<lparr>index = 0\<rparr> 0 0) ! 1
       = Counts [''00'' \<mapsto> 7]"
  using extraction_leaves_existing_objects_unchanged
      [of 1 "[Result [[''0'' \<mapsto> 1, ''1'' \<mapsto> 3]], Counts [''00'' \<mapsto> 7]]" one_qubit_sdk
        "\<lparr>n_exps = 1, ir_result = 0\<rparr>" 0 "\<lparr>index = 0\<rparr>" 0]
  by simp

section \<open>The fit is one call of \<open>fit_function\<close>\<close>

lemma fit_t1_calls:
  "fst (fit_t1 fit_function delays prob1_data) =
     [\<lparr>call_x = delays, call_y = prob1_data,
       call_model = inversion_recovery_function, call_init = [100]\<rparr>]"
  by (simp add: fit_t1_def Let_def split: sum.splits list.splits prod.splits)

text \<open>
  Claim C4. For every pair of arrays, \<open>fit_t1\<close> calls \<open>fit_function\<close> once, with the
  two arrays, the model \<open>inversion_recovery_function\<close> and the initial guess
  \<open>[100]\<close>; and when that call returns the parameters \<open>fit_params\<close> (at least one)
  and the curve \<open>y_fit\<close>, \<open>fit_t1\<close> returns the pair of \<open>fit_params[0]\<close> and
  \<open>y_fit\<close>, with nothing else computed from the data.
\<close>

theorem fit_t1_is_one_fit_function_call:
  assumes "fit_function delays prob1_data inversion_recovery_function [100] = Inr (fit_params, y_fit)"
    and "fit_params \<noteq> []"
  shows "fit_t1 fit_function delays prob1_data =
           ([\<lparr>call_x = delays, call_y = prob1_data,
              call_model = inversion_recovery_function, call_init = [100]\<rparr>],
            Inr (fit_params ! 0, y_fit))"
  using assms by (cases fit_params) (simp_all add: fit_t1_def)

theorem fit_t1_is_one_fit_function_call_witness:
  "[100 :: real] \<noteq> []
   \<and> fit_t1 (\<lambda>x y f init. Inr (init, y)) [0, 50] [1, 3 / 5] =
       ([\<lparr>call_x = [0, 50], call_y = [1, 3 / 5],
          call_model = inversion_recovery_function, call_init = [100]\<rparr>],
        Inr (100, [1, 3 / 5]))"
  using fit_t1_is_one_fit_function_call
      [of "\<lambda>x y f init. Inr (init, y)" "[0, 50]" "[1, 3 / 5]" "[100]" "[1, 3 / 5]"]
  by simp

section \<open>The MaxCut objective is the cut value\<close>

lemma edge_term_binary:
  assumes "a \<in> {0, 1}" and "b \<in> {0, 1}"
  shows "real_of_int (a + b - 2 * a * b) = (if a \<noteq> b then 1 else 0)"
  using assms by auto

lemma maxcut_sum_is_cut_value:
  assumes "set x \<subseteq> {0, 1}"
    and "\<forall>(i, j, w) \<in> set es. i < length x \<and> j < length x"
  shows "sum_list (map (\<lambda>(i, j, w). w * real_of_int (x ! i + x ! j - 2 * x ! i * x ! j)) es)
         = cut_value es x"
  using assms(2)
proof (induction es)
  case Nil
  show ?case by (simp add: cut_value_def)
next
  case (Cons e es)
  obtain i j w where e: "e = (i, j, w)"
    by (cases e) auto
  from Cons.prems e have "i < length x" and "j < length x"
    by auto
  with assms(1) have "x ! i \<in> {0, 1}" and "x ! j \<in> {0, 1}"
    using nth_mem by blast+
  then have here: "real_of_int (x ! i + x ! j - 2 * x ! i * x ! j) = (if x ! i \<noteq> x ! j then 1 else 0)"
    by (rule edge_term_binary)
  from Cons.prems have "\<forall>(i, j, w) \<in> set es. i < length x \<and> j < length x"
    by simp
  then have rest: "sum_list (map (\<lambda>(i, j, w). w * real_of_int (x ! i + x ! j - 2 * x ! i * x ! j)) es)
         = cut_value es x"
    by (rule Cons.IH)
  have "cut_value (e # es) x = (if x ! i \<noteq> x ! j then w else 0) + cut_value es x"
    by (simp add: cut_value_def e)
  with rest here show ?case
    by (simp add: e)
qed

lemma edges_in_range: "\<forall>(i, j, w) \<in> set edges. i < n_nodes \<and> j < n_nodes"
  by (simp add: edges_def n_nodes_def)

text \<open>
  Claim C10. For every binary assignment \<open>x\<close> of the five variables, the value of the
  objective, the sum over the edges \<open>(i, j, w)\<close> of
  \<open>w * (x[i] + x[j] - 2*x[i]*x[j])\<close>, is the total weight of the edges whose endpoints
  get different values; for on every edge \<open>x[i] + x[j] - 2*x[i]*x[j]\<close> is 1 when the
  two values differ and 0 when they are equal.
\<close>

theorem objective_is_cut_value:
  assumes "length x = n_nodes" and "set x \<subseteq> {0, 1}"
  shows "objective x = cut_value edges x
         \<and> (\<forall>(i, j, w) \<in> set edges.
               real_of_int (x ! i + x ! j - 2 * x ! i * x ! j) = (if x ! i \<noteq> x ! j then 1 else 0))"
proof -
  from edges_in_range assms(1)
  have inr: "\<forall>(i, j, w) \<in> set edges. i < length x \<and> j < length x"
    by simp
  with assms(2) have "objective x = cut_value edges x"
    unfolding objective_def by (rule maxcut_sum_is_cut_value)
  moreover have "\<forall>(i, j, w) \<in> set edges.
      real_of_int (x ! i + x ! j - 2 * x ! i * x ! j) = (if x ! i \<noteq> x ! j then 1 else 0)"
  proof (clarify)
    fix i j w
    assume "(i, j, w) \<in> set edges"
    with inr have "i < length x" and "j < length x"
      by auto
    with assms(2) have "x ! i \<in> {0, 1}" and "x ! j \<in> {0, 1}"
      using nth_mem by blast+
    then show "real_of_int (x ! i + x ! j - 2 * x ! i * x ! j) = (if x ! i \<noteq> x ! j then 1 else 0)"
      by (rule edge_term_binary)
  qed
  ultimately show ?thesis
    by simp
qed

theorem objective_is_cut_value_witness:
  "length [1, 0, 0, 1, 0 :: int] = n_nodes
   \<and> set [1, 0, 0, 1, 0 :: int] \<subseteq> {0, 1}
   \<and> objective [1, 0, 0, 1, 0] = 4
   \<and> cut_value edges [1, 0, 0, 1, 0] = 4"
  using objective_is_cut_value [of "[1, 0, 0, 1, 0]"]
  by (simp add: n_nodes_def cut_value_def edges_def)

section \<open>Error per Clifford\<close>

text \<open>
  The formula of the notebook's text has the values and the monotonicity that are
  expected of it: \<open>(1 - alpha) / 2\<close> for one qubit, \<open>3/4 * (1 - alpha)\<close> for two, 0 at
  \<open>alpha = 1\<close>, and strictly decreasing in \<open>alpha\<close> for every positive number of qubits.
\<close>

lemma epc_formula:
  assumes "0 < n" and "alpha < beta"
  shows "epc 1 alpha = (1 - alpha) / 2 \<and> epc 2 alpha = 3 / 4 * (1 - alpha)
         \<and> epc 1 1 = 0 \<and> epc 2 1 = 0 \<and> epc n 1 = 0
         \<and> epc 1 beta < epc 1 alpha \<and> epc 2 beta < epc 2 alpha \<and> epc n beta < epc n alpha"
proof -
  have decreasing: "epc k beta < epc k alpha" if "0 < k" for k
  proof -
    from that have "(1::real) < 2 ^ k"
      by (simp add: one_less_power)
    then have coeff: "0 < ((2::real) ^ k - 1) / 2 ^ k"
      by simp
    from assms(2) have "1 - beta < 1 - alpha"
      by simp
    with coeff have "(2 ^ k - 1) / 2 ^ k * (1 - beta) < (2 ^ k - 1) / 2 ^ k * (1 - alpha)"
      by (rule mult_strict_left_mono [rotated])
    then show ?thesis
      by (simp add: epc_def)
  qed
  have "epc 1 beta < epc 1 alpha" and "epc 2 beta < epc 2 alpha"
    by (rule decreasing, simp)+
  moreover from assms(1) have "epc n beta < epc n alpha"
    by (rule decreasing)
  moreover have "epc 1 alpha = (1 - alpha) / 2" and "epc 2 alpha = 3 / 4 * (1 - alpha)"
    and "epc 1 1 = 0" and "epc 2 1 = 0" and "epc n 1 = 0"
    by (simp_all add: epc_def)
  ultimately show ?thesis
    by simp
qed

text \<open>
  Claim C6 says that the error per Clifford of the 2-qubit experiment is
  \<open>3/4 * (1 - alpha)\<close>. The fit of the 2-qubit cell is made without the pattern
  \<open>[[0, 1]]\<close>, so it is the fit of one qubit: it gives \<open>(1 - alpha) / 2\<close>, as the fit of
  the 1-qubit cell does, where the fitter with the pattern gives
  \<open>3/4 * (1 - alpha)\<close>. At \<open>alpha = 98/100\<close> the cell gives 1/100 and the formula for two
  qubits gives 3/200.
\<close>

theorem two_qubit_fit_reports_one_qubit_epc:
  "one_qubit_cell_epc alpha = Inr ((1 - alpha) / 2)
   \<and> two_qubit_cell_epc alpha = Inr ((1 - alpha) / 2)
   \<and> rb_fitter_epc (Some two_qubit_rb_pattern) alpha = Inr (3 / 4 * (1 - alpha))
   \<and> two_qubit_cell_epc (98 / 100) = Inr (1 / 100)
   \<and> epc 2 (98 / 100) = 3 / 200"
  by (simp add: one_qubit_cell_epc_def two_qubit_cell_epc_def rb_fitter_epc_def
      two_qubit_rb_pattern_def epc_def)


end
